theory Spec2Isabelle
  imports Main "HOL-Library.Sublist" "HOL-Library.AList"
begin

section \<open>Python strings\<close>

text \<open>
  A Python \<^verbatim>\<open>str\<close> is a sequence of Unicode code points, and \<^verbatim>\<open>len\<close>, slicing and
  \<^verbatim>\<open>replace\<close> count code points.  The sources print and render characters beyond
  Latin-1 (the glyphs of the report), so a string is a list of code points, not of bytes.
  \<open>lit\<close> turns an ASCII literal into such a list.
\<close>

type_synonym pystr = "nat list"

abbreviation lit :: "string \<Rightarrow> pystr" where
  "lit s \<equiv> map of_char s"

text \<open>\<^verbatim>\<open>s.replace(old, new)\<close>: the occurrences of \<open>old\<close> are found from the left and do
  not overlap; the scan goes on after the end of each occurrence.  With an empty \<open>old\<close>
  Python puts \<open>new\<close> before every character and at the end.\<close>

function replace_scan :: "pystr \<Rightarrow> pystr \<Rightarrow> pystr \<Rightarrow> pystr" where
  "replace_scan old new [] = []"
| "replace_scan old new (c # cs) =
     (if old \<noteq> [] \<and> prefix old (c # cs)
      then new @ replace_scan old new (drop (length old) (c # cs))
      else c # replace_scan old new cs)"
  by pat_completeness auto
termination
  by (relation "measure (\<lambda>(old, new, s). length s)") auto

definition py_replace :: "pystr \<Rightarrow> pystr \<Rightarrow> pystr \<Rightarrow> pystr" where
  "py_replace old new s =
     (if old = [] then new @ concat (map (\<lambda>c. c # new) s) else replace_scan old new s)"

text \<open>\<^verbatim>\<open>str.isspace\<close> of one character: the code points that \<^verbatim>\<open>strip()\<close> without
  argument removes.\<close>

definition py_isspace :: "nat \<Rightarrow> bool" where
  "py_isspace c \<longleftrightarrow>
     (9 \<le> c \<and> c \<le> 13) \<or> (28 \<le> c \<and> c \<le> 32) \<or> c = 133 \<or> c = 160 \<or> c = 5760 \<or>
     (8192 \<le> c \<and> c \<le> 8202) \<or> c = 8232 \<or> c = 8233 \<or> c = 8239 \<or> c = 8287 \<or> c = 12288"

definition py_strip :: "pystr \<Rightarrow> pystr" where
  "py_strip s = rev (dropWhile py_isspace (rev (dropWhile py_isspace s)))"

text \<open>\<^verbatim>\<open>sep.join(xs)\<close>.\<close>

fun py_join :: "pystr \<Rightarrow> pystr list \<Rightarrow> pystr" where
  "py_join sep [] = []"
| "py_join sep [x] = x"
| "py_join sep (x # y # ys) = x @ sep @ py_join sep (y # ys)"

text \<open>\<^verbatim>\<open>re.search(r'\{[\s\S]*\}', s)\<close>: the class \<^verbatim>\<open>[\s\S]\<close> matches every character,
  the star is greedy, and the search returns the leftmost match.  So the match starts at
  the first \<^verbatim>\<open>{\<close> and runs to the last \<^verbatim>\<open>}\<close> after it; there is no match when no
  \<^verbatim>\<open>}\<close> follows the first \<^verbatim>\<open>{\<close>.  The result is \<^verbatim>\<open>match.group()\<close>.\<close>

definition re_search_braces :: "pystr \<Rightarrow> pystr option" where
  "re_search_braces s =
     (case dropWhile (\<lambda>c. c \<noteq> 123) s of
        [] \<Rightarrow> None
      | b # rest \<Rightarrow>
          if 125 \<in> set rest
          then Some (b # rev (dropWhile (\<lambda>c. c \<noteq> 125) (rev rest)))
          else None)"

text \<open>\<^verbatim>\<open>str(n)\<close> of an integer: its decimal digits, with a minus sign when negative.\<close>

function str_nat :: "nat \<Rightarrow> pystr" where
  "str_nat n = (if n < 10 then [48 + n] else str_nat (n div 10) @ [48 + n mod 10])"
  by pat_completeness auto
termination
  by (relation "measure id") auto

declare str_nat.simps [simp del]

definition str_int :: "int \<Rightarrow> pystr" where
  "str_int i = (if i < 0 then 45 # str_nat (nat (- i)) else str_nat (nat i))"

section \<open>Python values and errors\<close>

text \<open>
  A \<^verbatim>\<open>float\<close> is a sign with a magnitude \<open>m * 2 ^ e\<close>, an infinity or a NaN.  The
  values that \<^verbatim>\<open>json.loads\<close> returns are \<^verbatim>\<open>None\<close>, booleans, integers (unbounded),
  floats, strings, lists and dictionaries with string keys; a dictionary keeps its keys in
  insertion order, each key once.
\<close>

datatype pyfloat = Finite bool nat int | Inf bool | NaN

datatype pyval =
    PNone
  | PBool bool
  | PInt int
  | PFloat pyfloat
  | PStr pystr
  | PList "pyval list"
  | PDict "(pystr \<times> pyval) list"

text \<open>The exceptions of the sources.  \<open>JSONDecodeError\<close> is the error of
  \<^verbatim>\<open>json.loads\<close>; its message is the library's and is not modelled.  \<open>ValueError\<close>,
  \<open>KeyError\<close> and \<open>EnvironmentError\<close> carry their argument.  \<open>ExternalError\<close> stands for
  whatever an external service (the hosted model, the OCR engine) raises.\<close>

datatype pyerror =
    JSONDecodeError
  | ValueError pystr
  | KeyError pystr
  | TypeError
  | AttributeError
  | OverflowError
  | EnvironmentError pystr
  | UnicodeEncodeError
  | FileNotFoundError pystr
  | ExternalError pystr

subsection \<open>Rounding to a double\<close>

text \<open>The number of binary digits of a natural number.\<close>

function bits :: "nat \<Rightarrow> nat" where
  "bits n = (if n = 0 then 0 else Suc (bits (n div 2)))"
  by pat_completeness auto
termination
  by (relation "measure id") auto

declare bits.simps [simp del]

text \<open>Division of naturals rounded to the nearest, ties to the even quotient.\<close>

definition div_half_even :: "nat \<Rightarrow> nat \<Rightarrow> nat" where
  "div_half_even num den =
     (let q = num div den; r = num mod den
      in if den < 2 * r \<or> (2 * r = den \<and> odd q) then q + 1 else q)"

text \<open>
  \<open>round_double s p q\<close> is the IEEE binary64 value nearest to \<open>p / q\<close> (ties to even)
  with sign \<open>s\<close>: a mantissa of 53 bits, the least exponent -1074 (subnormals), and
  infinity beyond the largest double \<open>(2^53 - 1) * 2^971\<close>.  This is what \<^verbatim>\<open>float(str)\<close>
  and \<^verbatim>\<open>float(int)\<close> compute.
\<close>

definition scaled_div :: "nat \<Rightarrow> nat \<Rightarrow> int \<Rightarrow> nat" where
  "scaled_div p q e =
     (if 0 \<le> e then div_half_even p (q * 2 ^ nat e) else div_half_even (p * 2 ^ nat (- e)) q)"

definition round_double :: "bool \<Rightarrow> nat \<Rightarrow> nat \<Rightarrow> pyfloat" where
  "round_double s p q =
     (if p = 0 then Finite s 0 0
      else
        let d = int (bits p) - int (bits q);
            lg = (if (if 0 \<le> d then q * 2 ^ nat d \<le> p else q \<le> p * 2 ^ nat (- d))
                  then d else d - 1);
            e = max (lg - 52) (- 1074);
            m = scaled_div p q e
        in if m = 0 then Finite s 0 0
           else if m = 2 ^ 53 then (if 971 < e + 1 then Inf s else Finite s (2 ^ 52) (e + 1))
           else if 971 < e then Inf s
           else Finite s m e)"

text \<open>The double of a decimal literal with digits \<open>d\<close> and decimal exponent \<open>k\<close>.\<close>

definition dec_to_float :: "bool \<Rightarrow> nat \<Rightarrow> int \<Rightarrow> pyfloat" where
  "dec_to_float s d k =
     (if 0 \<le> k then round_double s (d * 10 ^ nat k) 1 else round_double s d (10 ^ nat (- k)))"

text \<open>\<^verbatim>\<open>float(n)\<close> of an integer raises \<^verbatim>\<open>OverflowError\<close> where the rounding overflows.\<close>

definition int_to_float :: "int \<Rightarrow> pyerror + pyfloat" where
  "int_to_float n =
     (case round_double (n < 0) (nat \<bar>n\<bar>) 1 of
        Finite s m e \<Rightarrow> Inr (Finite s m e) |
        _ \<Rightarrow> Inl OverflowError)"

section \<open>The JSON decoder of the Python library\<close>

text \<open>
  \<^verbatim>\<open>json.loads\<close> on a \<^verbatim>\<open>str\<close>, as CPython's decoder scans it: whitespace is space, tab,
  line feed and carriage return; a document is one value with nothing but whitespace
  around it.  The decoder either returns the value or raises \<^verbatim>\<open>JSONDecodeError\<close>, here
  \<open>None\<close>.  The limits of the interpreter (recursion depth, the digit limit of integer
  literals) are outside the model.
\<close>

definition json_ws :: "nat \<Rightarrow> bool" where
  "json_ws c \<longleftrightarrow> c = 32 \<or> c = 9 \<or> c = 10 \<or> c = 13"

definition skip_ws :: "pystr \<Rightarrow> pystr" where
  "skip_ws s = dropWhile json_ws s"

definition is_digit :: "nat \<Rightarrow> bool" where
  "is_digit c \<longleftrightarrow> 48 \<le> c \<and> c \<le> 57"

definition digits_val :: "pystr \<Rightarrow> nat" where
  "digits_val ds = foldl (\<lambda>a d. 10 * a + (d - 48)) 0 ds"

definition hexval :: "nat \<Rightarrow> nat option" where
  "hexval c =
     (if 48 \<le> c \<and> c \<le> 57 then Some (c - 48)
      else if 97 \<le> c \<and> c \<le> 102 then Some (c - 87)
      else if 65 \<le> c \<and> c \<le> 70 then Some (c - 55)
      else None)"

text \<open>The four hexadecimal digits of a \<^verbatim>\<open>\uXXXX\<close> escape.\<close>

fun hex4 :: "pystr \<Rightarrow> nat option" where
  "hex4 [a, b, c, d] =
     (case (hexval a, hexval b, hexval c, hexval d) of
        (Some x, Some y, Some z, Some w) \<Rightarrow> Some (((x * 16 + y) * 16 + z) * 16 + w)
      | _ \<Rightarrow> None)"
| "hex4 _ = None"

text \<open>The one-character escapes after a backslash.\<close>

definition backslash :: "nat \<Rightarrow> nat option" where
  "backslash e =
     (if e = 34 \<or> e = 92 \<or> e = 47 then Some e
      else if e = 98 then Some 8
      else if e = 102 then Some 12
      else if e = 110 then Some 10
      else if e = 114 then Some 13
      else if e = 116 then Some 9
      else None)"

definition cons_res :: "nat \<Rightarrow> (pystr \<times> pystr) option \<Rightarrow> (pystr \<times> pystr) option" where
  "cons_res c r = map_option (\<lambda>(t, rest). (c # t, rest)) r"

text \<open>
  \<open>scanstring\<close> reads a string after its opening quote and returns its characters and
  the input after the closing quote.  Control characters below 32 are refused (the
  decoder is strict); a high surrogate escape followed by a low surrogate escape is one
  code point.
\<close>

function scanstring :: "pystr \<Rightarrow> (pystr \<times> pystr) option" where
  "scanstring [] = None"
| "scanstring (c # cs) =
     (if c = 34 then Some ([], cs)
      else if c = 92 then
        (case cs of
           [] \<Rightarrow> None
         | e # es \<Rightarrow>
             if e = 117 then
               (case hex4 (take 4 es) of
                  None \<Rightarrow> None
                | Some uni \<Rightarrow>
                    if 55296 \<le> uni \<and> uni \<le> 56319 \<and> take 2 (drop 4 es) = [92, 117] then
                      (case hex4 (take 4 (drop 6 es)) of
                         None \<Rightarrow> None
                       | Some uni2 \<Rightarrow>
                           if 56320 \<le> uni2 \<and> uni2 \<le> 57343
                           then cons_res (65536 + ((uni - 55296) * 1024 + (uni2 - 56320)))
                                  (scanstring (drop 10 es))
                           else cons_res uni (scanstring (drop 4 es)))
                    else cons_res uni (scanstring (drop 4 es)))
             else
               (case backslash e of
                  None \<Rightarrow> None
                | Some d \<Rightarrow> cons_res d (scanstring es)))
      else if c < 32 then None
      else cons_res c (scanstring cs))"
  by pat_completeness auto
termination
  by (relation "measure length") auto

text \<open>
  A number: an optional minus, \<^verbatim>\<open>0\<close> or a digit from 1 to 9 followed by digits, then
  optionally a fraction (a point and at least one digit) and an exponent (\<^verbatim>\<open>e\<close> or
  \<^verbatim>\<open>E\<close>, an optional sign, at least one digit).  Without fraction and exponent the
  value is an \<^verbatim>\<open>int\<close>, otherwise the nearest \<^verbatim>\<open>float\<close>.
\<close>

definition exp_part :: "pystr \<Rightarrow> (bool \<times> pystr \<times> pystr) option" where
  "exp_part s =
     (case s of
        [] \<Rightarrow> None
      | c # r \<Rightarrow>
          if c = 101 \<or> c = 69 then
            (let neg = (r \<noteq> [] \<and> hd r = 45);
                 r' = (if r \<noteq> [] \<and> (hd r = 45 \<or> hd r = 43) then tl r else r);
                 ds = takeWhile is_digit r'
             in if ds = [] then None else Some (neg, ds, drop (length ds) r'))
          else None)"

definition match_number :: "pystr \<Rightarrow> (pyval \<times> pystr) option" where
  "match_number s =
     (let neg = (s \<noteq> [] \<and> hd s = 45);
          s1 = (if neg then tl s else s);
          ip = (if s1 \<noteq> [] \<and> hd s1 = 48 then [48] else takeWhile is_digit s1);
          s2 = drop (length ip) s1;
          fr = (if s2 \<noteq> [] \<and> hd s2 = 46 then takeWhile is_digit (tl s2) else []);
          s3 = (if fr = [] then s2 else drop (Suc (length fr)) s2)
      in if ip = [] then None
         else
           (case exp_part s3 of
              None \<Rightarrow>
                if fr = []
                then Some (PInt (if neg then - int (digits_val ip) else int (digits_val ip)), s2)
                else Some (PFloat (dec_to_float neg (digits_val (ip @ fr))
                                     (- int (length fr))), s3)
            | Some (eneg, ds, s4) \<Rightarrow>
                Some (PFloat (dec_to_float neg (digits_val (ip @ fr))
                               ((if eneg then - int (digits_val ds) else int (digits_val ds))
                                 - int (length fr))), s4)))"

text \<open>
  The three scanning functions follow the decoder: \<open>parse_value\<close> is \<^verbatim>\<open>scan_once\<close>,
  \<open>parse_array\<close> and \<open>parse_object\<close> are the loops of \<^verbatim>\<open>JSONArray\<close> and
  \<^verbatim>\<open>JSONObject\<close>, entered at the first element or key.  Each returns the value and the
  rest of the input.  A key that occurs twice keeps its first place and takes the last
  value, as building a \<^verbatim>\<open>dict\<close> from the pairs does.  The test that the rest is
  shorter than the input always succeeds (lemma \<open>parse_value_shorter\<close>); it is what the
  termination proof uses.
\<close>

function parse_value :: "pystr \<Rightarrow> (pyval \<times> pystr) option"
  and parse_array :: "pyval list \<Rightarrow> pystr \<Rightarrow> (pyval \<times> pystr) option"
  and parse_object :: "(pystr \<times> pyval) list \<Rightarrow> pystr \<Rightarrow> (pyval \<times> pystr) option"
where
  "parse_value [] = None"
| "parse_value (c # cs) =
     (if c = 34 then map_option (\<lambda>(t, rest). (PStr t, rest)) (scanstring cs)
      else if c = 123 then
        (if skip_ws cs \<noteq> [] \<and> hd (skip_ws cs) = 125 then Some (PDict [], tl (skip_ws cs))
         else parse_object [] (skip_ws cs))
      else if c = 91 then
        (if skip_ws cs \<noteq> [] \<and> hd (skip_ws cs) = 93 then Some (PList [], tl (skip_ws cs))
         else parse_array [] (skip_ws cs))
      else if prefix (lit ''null'') (c # cs) then Some (PNone, drop 4 (c # cs))
      else if prefix (lit ''true'') (c # cs) then Some (PBool True, drop 4 (c # cs))
      else if prefix (lit ''false'') (c # cs) then Some (PBool False, drop 5 (c # cs))
      else if prefix (lit ''NaN'') (c # cs) then Some (PFloat NaN, drop 3 (c # cs))
      else if prefix (lit ''Infinity'') (c # cs) then Some (PFloat (Inf False), drop 8 (c # cs))
      else if prefix (lit ''-Infinity'') (c # cs) then Some (PFloat (Inf True), drop 9 (c # cs))
      else match_number (c # cs))"
| "parse_array acc s =
     (case parse_value s of
        None \<Rightarrow> None
      | Some (v, rest) \<Rightarrow>
          if length rest < length s then
            (case skip_ws rest of
               [] \<Rightarrow> None
             | d # r \<Rightarrow>
                 if d = 93 then Some (PList (acc @ [v]), r)
                 else if d = 44 then parse_array (acc @ [v]) (skip_ws r)
                 else None)
          else None)"
| "parse_object acc s =
     (case s of
        [] \<Rightarrow> None
      | q # s0 \<Rightarrow>
          if q = 34 then
            (case scanstring s0 of
               None \<Rightarrow> None
             | Some (key, s1) \<Rightarrow>
                 if length s1 < length s then
                   (case skip_ws s1 of
                      [] \<Rightarrow> None
                    | col # s2 \<Rightarrow>
                        if col = 58 then
                          (case parse_value (skip_ws s2) of
                             None \<Rightarrow> None
                           | Some (v, s3) \<Rightarrow>
                               if length s3 < length s then
                                 (case skip_ws s3 of
                                    [] \<Rightarrow> None
                                  | d # r \<Rightarrow>
                                      if d = 125 then Some (PDict (AList.update key v acc), r)
                                      else if d = 44
                                      then parse_object (AList.update key v acc) (skip_ws r)
                                      else None)
                               else None)
                        else None)
                 else None)
          else None)"
  by pat_completeness auto
termination
proof (relation "measures
    [\<lambda>x. case x of Inl s \<Rightarrow> length s | Inr (Inl (a, s)) \<Rightarrow> length s
        | Inr (Inr (a, s)) \<Rightarrow> length s,
     \<lambda>x. case x of Inl s \<Rightarrow> 0 | Inr (Inl (a, s)) \<Rightarrow> Suc 0
        | Inr (Inr (a, s)) \<Rightarrow> Suc 0]", goal_cases)
  have le: "length (skip_ws s) \<le> length s" for s
    by (simp add: skip_ws_def length_dropWhile_le)
  have less: "length (skip_ws r) < length s" if "skip_ws s = d # r" for s d r
  proof -
    have "length (d # r) \<le> length s" using le[of s] that by simp
    moreover have "length (skip_ws r) \<le> length r" by (rule le)
    ultimately show ?thesis by simp
  qed
  {
    case 1 show ?case by simp
  next
    case (2 c cs) show ?case using le[of cs] by simp
  next
    case (3 c cs) show ?case using le[of cs] by simp
  next
    case (4 acc s) show ?case by simp
  next
    case (5 acc s x2 v rest d r)
    then show ?case using less[of rest d r] by simp
  next
    case (6 acc s q s0 x2 key s1 col s2)
    then show ?case using less[of s1 col s2] by simp
  next
    case (7 acc s q s0 x2 key s1 col s2 x2a v s3 d r)
    then show ?case using less[of s3 d r] by simp
  }
qed

text \<open>\<^verbatim>\<open>json.loads(s)\<close>: a leading byte order mark is refused, whitespace is skipped
  before and after the value, and anything else after it is an error.\<close>

definition json_loads :: "pystr \<Rightarrow> pyval option" where
  "json_loads s =
     (if s \<noteq> [] \<and> hd s = 65279 then None
      else
        (case parse_value (skip_ws s) of
           None \<Rightarrow> None
         | Some (v, rest) \<Rightarrow> if skip_ws rest = [] then Some v else None))"

section \<open>Operations on Python values\<close>

text \<open>Sequencing of computations that may raise.\<close>

definition py_bind :: "pyerror + 'a \<Rightarrow> ('a \<Rightarrow> pyerror + 'b) \<Rightarrow> pyerror + 'b" where
  "py_bind m f = (case m of Inl e \<Rightarrow> Inl e | Inr x \<Rightarrow> f x)"

text \<open>\<^verbatim>\<open>x.get(k, default)\<close>: only a dictionary has the method.\<close>

definition py_get :: "pyval \<Rightarrow> pystr \<Rightarrow> pyval \<Rightarrow> pyerror + pyval" where
  "py_get x k dflt =
     (case x of
        PDict d \<Rightarrow> Inr (case map_of d k of None \<Rightarrow> dflt | Some v \<Rightarrow> v)
      | _ \<Rightarrow> Inl AttributeError)"

text \<open>\<^verbatim>\<open>x[k]\<close> with a string key: \<^verbatim>\<open>KeyError\<close> on a dictionary without the key,
  \<^verbatim>\<open>TypeError\<close> on every other value.\<close>

definition py_getitem :: "pyval \<Rightarrow> pystr \<Rightarrow> pyerror + pyval" where
  "py_getitem x k =
     (case x of
        PDict d \<Rightarrow> (case map_of d k of None \<Rightarrow> Inl (KeyError k) | Some v \<Rightarrow> Inr v)
      | _ \<Rightarrow> Inl TypeError)"

text \<open>The truth value of a value in a condition.\<close>

fun py_truthy :: "pyval \<Rightarrow> bool" where
  "py_truthy PNone = False"
| "py_truthy (PBool b) = b"
| "py_truthy (PInt n) = (n \<noteq> 0)"
| "py_truthy (PFloat (Finite s m e)) = (m \<noteq> 0)"
| "py_truthy (PFloat _) = True"
| "py_truthy (PStr t) = (t \<noteq> [])"
| "py_truthy (PList xs) = (xs \<noteq> [])"
| "py_truthy (PDict d) = (d \<noteq> [])"

text \<open>\<^verbatim>\<open>len(x)\<close>.\<close>

fun py_len :: "pyval \<Rightarrow> pyerror + nat" where
  "py_len (PStr t) = Inr (length t)"
| "py_len (PList xs) = Inr (length xs)"
| "py_len (PDict d) = Inr (length d)"
| "py_len _ = Inl TypeError"

text \<open>The values a \<^verbatim>\<open>for\<close> loop over \<open>x\<close> visits: the elements of a list, the
  characters of a string, the keys of a dictionary.\<close>

fun py_iter :: "pyval \<Rightarrow> pyerror + pyval list" where
  "py_iter (PList xs) = Inr xs"
| "py_iter (PStr t) = Inr (map (\<lambda>c. PStr [c]) t)"
| "py_iter (PDict d) = Inr (map (\<lambda>kv. PStr (fst kv)) d)"
| "py_iter _ = Inl TypeError"

text \<open>\<^verbatim>\<open>x > 0\<close>: defined on numbers (a boolean is a number), false for NaN.\<close>

fun py_gt_zero :: "pyval \<Rightarrow> pyerror + bool" where
  "py_gt_zero (PBool b) = Inr b"
| "py_gt_zero (PInt n) = Inr (0 < n)"
| "py_gt_zero (PFloat (Finite s m e)) = Inr (\<not> s \<and> 0 < m)"
| "py_gt_zero (PFloat (Inf s)) = Inr (\<not> s)"
| "py_gt_zero (PFloat NaN) = Inr False"
| "py_gt_zero _ = Inl TypeError"

text \<open>
  What the sources use of the Python library without the claims depending on its
  output: the \<^verbatim>\<open>str()\<close> of a float, a list or a dictionary, \<^verbatim>\<open>json.dumps(x, indent=2)\<close>,
  the text that \<^verbatim>\<open>json.dump(x, f, indent=2, ensure_ascii=False)\<close> writes, and
  \<^verbatim>\<open>str.upper\<close>.  They are parameters of the model.
\<close>

record pylib =
  repr_other :: "pyval \<Rightarrow> pystr"
  json_dumps :: "pyval \<Rightarrow> pystr"
  json_dump_text :: "pyval \<Rightarrow> pystr"
  str_upper :: "pystr \<Rightarrow> pystr"

text \<open>\<^verbatim>\<open>str(x)\<close>, which is also how an f-string renders \<^verbatim>\<open>{x}\<close>.\<close>

fun py_str :: "pylib \<Rightarrow> pyval \<Rightarrow> pystr" where
  "py_str L (PStr t) = t"
| "py_str L (PInt n) = str_int n"
| "py_str L PNone = lit ''None''"
| "py_str L (PBool b) = (if b then lit ''True'' else lit ''False'')"
| "py_str L v = repr_other L v"

text \<open>
  \<^verbatim>\<open>format(x, '.1f')\<close> of a float: the exact value \<open>m * 2 ^ e\<close> rounded to tenths, ties
  to even, written with its sign, its integer digits, a point and one digit; an infinity
  and a NaN are written as words.
\<close>

definition tenths :: "nat \<Rightarrow> int \<Rightarrow> nat" where
  "tenths m e =
     (if 0 \<le> e then 10 * m * 2 ^ nat e else div_half_even (10 * m) (2 ^ nat (- e)))"

fun float_format_1f :: "pyfloat \<Rightarrow> pystr" where
  "float_format_1f (Finite s m e) =
     (if s then [45] else []) @ str_nat (tenths m e div 10) @ [46] @ [48 + tenths m e mod 10]"
| "float_format_1f (Inf s) = (if s then lit ''-inf'' else lit ''inf'')"
| "float_format_1f NaN = lit ''nan''"

text \<open>\<^verbatim>\<open>f"{x:.1f}"\<close>: an integer or a boolean is converted to a float first; a string
  refuses the format code and the other values refuse every format.\<close>

fun py_format_1f :: "pyval \<Rightarrow> pyerror + pystr" where
  "py_format_1f (PFloat f) = Inr (float_format_1f f)"
| "py_format_1f (PInt n) = map_sum id float_format_1f (int_to_float n)"
| "py_format_1f (PBool b) = map_sum id float_format_1f (int_to_float (if b then 1 else 0))"
| "py_format_1f (PStr t) =
     Inl (ValueError (lit ''Unknown format code '' @ [39] @ lit ''f'' @ [39] @
            lit '' for object of type '' @ [39] @ lit ''str'' @ [39]))"
| "py_format_1f _ = Inl TypeError"

section \<open>The world of the scripts\<close>

text \<open>
  The state the scripts read and change: the files (a path to its text, as Python reads
  and writes it in text mode), the lines printed on the console (one entry for each
  \<^verbatim>\<open>print\<close>), and the environment variables.  The state after an uncaught exception is
  not tracked: a function returns either the error or its result with the new state.
\<close>

record world =
  files :: "pystr \<rightharpoonup> pystr"
  stdout :: "pystr list"
  environ :: "pystr \<rightharpoonup> pystr"

definition print :: "pystr \<Rightarrow> world \<Rightarrow> world" where
  "print t w = w\<lparr>stdout := stdout w @ [t]\<rparr>"

text \<open>\<^verbatim>\<open>os.path.exists(p)\<close>.\<close>

definition path_exists :: "world \<Rightarrow> pystr \<Rightarrow> bool" where
  "path_exists w p \<longleftrightarrow> files w p \<noteq> None"

text \<open>\<^verbatim>\<open>open(p, "r", encoding="utf-8").read()\<close>.\<close>

definition read_text :: "world \<Rightarrow> pystr \<Rightarrow> pyerror + pystr" where
  "read_text w p = (case files w p of None \<Rightarrow> Inl (FileNotFoundError p) | Some t \<Rightarrow> Inr t)"

text \<open>A text can be encoded as UTF-8 when it has no surrogate code point; writing any
  other text to a file opened with \<^verbatim>\<open>encoding="utf-8"\<close> raises.\<close>

definition encodable :: "pystr \<Rightarrow> bool" where
  "encodable t \<longleftrightarrow> list_all (\<lambda>c. \<not> (55296 \<le> c \<and> c \<le> 57343)) t"

text \<open>\<^verbatim>\<open>f.write(t)\<close> on an open file whose text so far is \<open>buf\<close>.\<close>

definition file_write :: "pystr \<Rightarrow> pystr \<Rightarrow> pyerror + pystr" where
  "file_write buf t = (if encodable t then Inr (buf @ t) else Inl UnicodeEncodeError)"

text \<open>\<^verbatim>\<open>with open(p, "w", encoding="utf-8") as f: f.write(t)\<close>.\<close>

definition write_text :: "pystr \<Rightarrow> pystr \<Rightarrow> world \<Rightarrow> pyerror + world" where
  "write_text p t w =
     (case file_write [] t of
        Inl e \<Rightarrow> Inl e
      | Inr buf \<Rightarrow> Inr (w\<lparr>files := (files w)(p \<mapsto> buf)\<rparr>))"

text \<open>
  The hosted model, as the client library exposes it: uploading a file, deleting an
  uploaded file and generating the text of a response from a model name and contents.
  Each call returns or raises; what it returns is a parameter of the model.
\<close>

datatype client = Client pystr

datatype uploaded = Uploaded (name: pystr)

datatype content = CFile uploaded | CText pystr

record remote =
  files_upload :: "client \<Rightarrow> pystr \<Rightarrow> pyerror + uploaded"
  files_delete :: "client \<Rightarrow> pystr \<Rightarrow> pyerror + unit"
  generate_content :: "client \<Rightarrow> pystr \<Rightarrow> content list \<Rightarrow> pyerror + pystr"


section \<open>extractor.py\<close>



section \<open>htr.py\<close>

definition GEMINI_MODEL :: pystr where
  "GEMINI_MODEL = lit ''gemini-2.5-flash-lite''"

definition HANDWRITTEN_PDF :: pystr where
  "HANDWRITTEN_PDF = lit ''handwritten-ans.pdf''"

text \<open>\<^verbatim>\<open>get_client\<close>.  \<^verbatim>\<open>load_env\<close> runs when the modules are imported, before any
  function modelled here; the environment of the world is the one it leaves.\<close>

definition get_client :: "world \<Rightarrow> pyerror + client" where
  "get_client w =
     (case environ w (lit ''GEMINI_API_KEY'') of
        None \<Rightarrow>
          Inl (EnvironmentError
            (lit ''\<newline>'' @ [10060] @ lit '' Gemini API key not set!\<newline>'' @
             lit ''Open the .env file in your project folder and replace:\<newline>'' @
             lit ''   GEMINI_API_KEY=your_gemini_api_key_here\<newline>'' @
             lit ''with your actual key from https://aistudio.google.com/apikey\<newline>''))
      | Some api_key \<Rightarrow>
          if api_key = [] \<or> api_key = lit ''your_gemini_api_key_here'' then
            Inl (EnvironmentError
              (lit ''\<newline>'' @ [10060] @ lit '' Gemini API key not set!\<newline>'' @
               lit ''Open the .env file in your project folder and replace:\<newline>'' @
               lit ''   GEMINI_API_KEY=your_gemini_api_key_here\<newline>'' @
               lit ''with your actual key from https://aistudio.google.com/apikey\<newline>''))
          else Inr (Client api_key))"

definition upload_pdf ::
  "remote \<Rightarrow> client \<Rightarrow> pystr \<Rightarrow> world \<Rightarrow> pyerror + (uploaded \<times> world)" where
  "upload_pdf R cl pdf_path w =
     (let w1 = print (lit ''  Uploading PDF to Gemini File API...'') w in
      case files_upload R cl pdf_path of
        Inl e \<Rightarrow> Inl e
      | Inr up \<Rightarrow> Inr (up, print (lit ''  Uploaded: '' @ name up) w1))"

definition transcribe_prompt :: pystr where
  \<open>transcribe_prompt =
     lit ''You are an expert handwriting recognition system for exam answer sheets.\<newline>'' @
     lit ''\<newline>'' @
     lit ''Process ALL pages of this PDF and transcribe ALL handwritten content.\<newline>'' @
     lit ''\<newline>'' @
     lit ''Rules:\<newline>'' @
     lit ''- Transcribe EXACTLY what is written '' @ [8212] @ lit '' preserve the student'' @ [39] @ lit ''s words verbatim\<newline>'' @
     lit ''- For MCQ answers: detect patterns like "1. B", "2. C", "3. A" etc.\<newline>'' @
     lit ''- For written answers: transcribe the full handwritten text faithfully\<newline>'' @
     lit ''- If handwriting is unclear, note [unclear]\<newline>'' @
     lit ''- Group content by question number\<newline>'' @
     lit ''- Do NOT correct grammar or spelling '' @ [8212] @ lit '' just transcribe\<newline>'' @
     lit ''- Ignore printed text '' @ [8212] @ lit '' only extract handwritten content\<newline>'' @
     lit ''- Process ALL pages, not just the first one\<newline>'' @
     lit ''\<newline>'' @
     lit ''Return ALL handwritten answers as JSON:\<newline>'' @
     lit ''{\<newline>'' @
     lit ''  "answers": [\<newline>'' @
     lit ''    {"question_number": "1", "answer_text": "B", "answer_type": "mcq"},\<newline>'' @
     lit ''    {"question_number": "2", "answer_text": "The auditor should verify...", "answer_type": "written"}\<newline>'' @
     lit ''  ],\<newline>'' @
     lit ''  "total_questions_found": 10,\<newline>'' @
     lit ''  "pages_processed": 9,\<newline>'' @
     lit ''  "extraction_notes": "Any notes about handwriting quality"\<newline>'' @
     lit ''}\<newline>'' @
     lit ''\<newline>'' @
     lit ''Return ONLY valid JSON. No markdown, no explanation.''\<close>

text \<open>
  Lines 86 to 101 of \<^verbatim>\<open>extract_all_pages\<close>, on the stripped text \<open>raw\<close> of the response:
  parse it with every \<^verbatim>\<open>```json\<close> and then every \<^verbatim>\<open>```\<close> deleted and the result
  stripped; on a decoding error parse what the brace pattern matches; when there is no
  match or it does not parse either, return the placeholder record.
\<close>

definition parse_transcription :: "pystr \<Rightarrow> pyval" where
  "parse_transcription raw =
     (case json_loads (py_strip (py_replace (lit ''```'') [] (py_replace (lit ''```json'') [] raw))) of
        Some v \<Rightarrow> v
      | None \<Rightarrow>
          (case (case re_search_braces raw of None \<Rightarrow> None | Some blk \<Rightarrow> json_loads blk) of
             Some v \<Rightarrow> v
           | None \<Rightarrow>
               PDict
                 [(lit ''answers'',
                   PList [PDict [(lit ''question_number'', PStr (lit ''?'')),
                                 (lit ''answer_text'', PStr raw),
                                 (lit ''answer_type'', PStr (lit ''raw''))]]),
                  (lit ''total_questions_found'', PInt 0),
                  (lit ''pages_processed'', PStr (lit ''unknown'')),
                  (lit ''extraction_notes'',
                   PStr (lit ''JSON parse failed '' @ [8212] @ lit '' raw text included''))]))"

definition extract_all_pages ::
  "remote \<Rightarrow> client \<Rightarrow> uploaded \<Rightarrow> world \<Rightarrow> pyerror + (pyval \<times> world)" where
  "extract_all_pages R cl pdf_file w =
     (let w1 = print (lit ''  Sending entire PDF in ONE request (all pages at once)...'') w in
      case generate_content R cl GEMINI_MODEL [CFile pdf_file, CText transcribe_prompt] of
        Inl e \<Rightarrow> Inl e
      | Inr text \<Rightarrow> Inr (parse_transcription (py_strip text), w1))"

text \<open>The loop that writes the answers to the text file; \<open>buf\<close> is the text written so
  far.\<close>

fun write_answers :: "pylib \<Rightarrow> pyval list \<Rightarrow> pystr \<Rightarrow> pyerror + pystr" where
  "write_answers L [] buf = Inr buf"
| "write_answers L (ans # rest) buf =
     py_bind (py_getitem ans (lit ''question_number'')) (\<lambda>qn.
     py_bind (py_get ans (lit ''answer_type'') (PStr (lit ''written''))) (\<lambda>ty.
     py_bind (case ty of PStr t \<Rightarrow> Inr (str_upper L t) | _ \<Rightarrow> Inl AttributeError) (\<lambda>up.
     py_bind (file_write buf (lit ''Q'' @ py_str L qn @ lit ''. ['' @ up @ lit '']\<newline>'')) (\<lambda>buf1.
     py_bind (py_getitem ans (lit ''answer_text'')) (\<lambda>txt.
     py_bind (file_write buf1 (py_str L txt @ lit ''\<newline>\<newline>'')) (\<lambda>buf2.
     write_answers L rest buf2))))))"

text \<open>
  \<^verbatim>\<open>extract_handwritten_text\<close>.  The deletion of the uploaded file is attempted and its
  failure is swallowed; it changes nothing of the state modelled here.
\<close>

definition extract_handwritten_text ::
  "remote \<Rightarrow> pylib \<Rightarrow> pystr \<Rightarrow> pystr \<Rightarrow> pystr \<Rightarrow> world \<Rightarrow> pyerror + (pyval \<times> world)" where
  "extract_handwritten_text R L pdf_path output_txt output_json w =
     (let w1 = print (replicate 58 61) w;
          w2 = print (lit ''  Paper Correction AI '' @ [8212] @ lit '' Gemini Vision HTR (FREE)'') w1;
          w3 = print (lit ''  Entire PDF processed in a SINGLE API call'') w2;
          w4 = print (replicate 58 61) w3
      in
      py_bind (get_client w4) (\<lambda>cl.
      py_bind (upload_pdf R cl pdf_path
                 (print (lit ''\<newline>[1/3] Uploading PDF: '' @ pdf_path) w4)) (\<lambda>(pdf_file, w5).
      py_bind (extract_all_pages R cl pdf_file
                 (print (lit ''\<newline>[2/3] Extracting handwriting...'') w5)) (\<lambda>(result, w6).
      let deleted = (case files_delete R cl (name pdf_file) of Inl e \<Rightarrow> () | Inr u \<Rightarrow> ()) in
      py_bind (py_get result (lit ''answers'') (PList [])) (\<lambda>answers.
      py_bind (py_len answers) (\<lambda>n.
      py_bind (py_get result (lit ''total_questions_found'') (PInt (int n))) (\<lambda>found.
      py_bind (py_get result (lit ''pages_processed'') (PStr (lit ''?''))) (\<lambda>pages.
      let w7 = print (lit ''  '' @ [8594] @ lit '' Found '' @ py_str L found @
                        lit '' answer(s) across '' @ py_str L pages @ lit '' page(s)'') w6 in
      py_bind (py_get result (lit ''extraction_notes'') PNone) (\<lambda>notes.
      py_bind (if py_truthy notes
               then py_bind (py_getitem result (lit ''extraction_notes'')) (\<lambda>nt.
                      Inr (print (lit ''  '' @ [9888] @ lit '' Notes: '' @ py_str L nt) w7))
               else Inr w7) (\<lambda>w8.
      py_bind (case result of
                 PDict d \<Rightarrow>
                   Inr (PDict (AList.update (lit ''api_calls_used'') (PInt 1)
                                 (AList.update (lit ''source_pdf'') (PStr pdf_path) d)))
               | _ \<Rightarrow> Inl TypeError) (\<lambda>result'.
      py_bind (write_text output_json (json_dump_text L result') w8) (\<lambda>w9.
      let w10 = print (lit ''\<newline>[3/3] Saved JSON '' @ [8594] @ lit '' '' @ output_json) w9 in
      py_bind (file_write [] (lit ''# Handwritten Answers from: '' @ pdf_path @ lit ''\<newline>'')) (\<lambda>b1.
      py_bind (file_write b1 (lit ''# Questions found: '' @ py_str L found @ lit ''\<newline>'')) (\<lambda>b2.
      py_bind (py_get result' (lit ''extraction_notes'') (PStr (lit ''Clean extraction''))) (\<lambda>nt2.
      py_bind (file_write b2 (lit ''# Notes: '' @ py_str L nt2 @ lit ''\<newline>\<newline>'')) (\<lambda>b3.
      py_bind (py_get result' (lit ''answers'') (PList [])) (\<lambda>answers2.
      py_bind (py_iter answers2) (\<lambda>items.
      py_bind (write_answers L items b3) (\<lambda>b4.
      let w11 = w10\<lparr>files := (files w10)(output_txt \<mapsto> b4)\<rparr>;
          w12 = print (lit ''         Saved text  '' @ [8594] @ lit '' '' @ output_txt) w11;
          w13 = print (lit ''\<newline>'' @ [10003] @ lit '' Done! Used only 1 API call for '' @
                         py_str L pages @ lit '' pages.'') w12
      in Inr (result', w13))))))))))))))))))))"

section \<open>htr_pipeline.py\<close>

definition OUTPUT_JSON :: pystr where
  "OUTPUT_JSON = lit ''final_output.json''"

definition OUTPUT_REPORT :: pystr where
  "OUTPUT_REPORT = lit ''grading_report.txt''"

text \<open>\<^verbatim>\<open>_call_gemini\<close>.\<close>

definition call_gemini :: "remote \<Rightarrow> client \<Rightarrow> pystr \<Rightarrow> pyerror + pystr" where
  "call_gemini R cl prompt =
     (case generate_content R cl GEMINI_MODEL [CText prompt] of
        Inl e \<Rightarrow> Inl e
      | Inr text \<Rightarrow> Inr (py_strip text))"

text \<open>\<^verbatim>\<open>_parse_json\<close>.  The second \<^verbatim>\<open>json.loads\<close> runs inside the handler of the
  first error and nothing catches its own error.\<close>

definition parse_json :: "pystr \<Rightarrow> pyerror + pyval" where
  "parse_json raw =
     (case json_loads (py_strip (py_replace (lit ''```'') [] (py_replace (lit ''```json'') [] raw))) of
        Some v \<Rightarrow> Inr v
      | None \<Rightarrow>
          (case re_search_braces raw of
             Some blk \<Rightarrow> (case json_loads blk of Some v \<Rightarrow> Inr v | None \<Rightarrow> Inl JSONDecodeError)
           | None \<Rightarrow>
               Inl (ValueError (lit ''Could not parse response as JSON:\<newline>'' @ take 300 raw))))"

definition solutions_prompt :: "pystr \<Rightarrow> pystr" where
  \<open>solutions_prompt solutions_text =
     lit ''Parse this exam solutions document and extract all correct answers.\<newline>'' @
     lit ''\<newline>'' @
     lit ''SOLUTIONS TEXT:\<newline>'' @
     solutions_text @
     lit ''\<newline>'' @
     lit ''\<newline>'' @
     lit ''Return JSON in this exact format:\<newline>'' @
     lit ''{\<newline>'' @
     lit ''  "solutions": [\<newline>'' @
     lit ''    {\<newline>'' @
     lit ''      "question_number": "1",\<newline>'' @
     lit ''      "correct_answer": "B",\<newline>'' @
     lit ''      "answer_type": "mcq",\<newline>'' @
     lit ''      "marks": 2,\<newline>'' @
     lit ''      "explanation": "Brief explanation"\<newline>'' @
     lit ''    }\<newline>'' @
     lit ''  ],\<newline>'' @
     lit ''  "total_marks": 50\<newline>'' @
     lit ''}\<newline>'' @
     lit ''\<newline>'' @
     lit ''Return ONLY valid JSON.''\<close>

definition extract_solutions ::
  "remote \<Rightarrow> pylib \<Rightarrow> client \<Rightarrow> pystr \<Rightarrow> world \<Rightarrow> pyerror + (pyval \<times> world)" where
  "extract_solutions R L cl solutions_txt_path w =
     (let w1 = print (lit ''\<newline>[Step 2] Parsing solution key...'') w in
      py_bind (read_text w1 solutions_txt_path) (\<lambda>solutions_text.
      py_bind (call_gemini R cl (solutions_prompt solutions_text)) (\<lambda>raw.
      py_bind (parse_json raw) (\<lambda>result.
      py_bind (py_get result (lit ''solutions'') (PList [])) (\<lambda>sols.
      py_bind (py_len sols) (\<lambda>n.
      let w2 = print (lit ''      Found '' @ str_int (int n) @ lit '' solution(s)'') w1 in
      py_bind (py_get result (lit ''total_marks'') (PStr (lit ''N/A''))) (\<lambda>tm.
      Inr (result, print (lit ''      Total marks: '' @ py_str L tm) w2))))))))"

definition grading_prompt :: "pystr \<Rightarrow> pystr \<Rightarrow> pystr \<Rightarrow> pystr" where
  \<open>grading_prompt answers_json solutions_json questions_text =
     lit ''You are a strict but fair exam grader for CA (Chartered Accountancy) exams.\<newline>'' @
     lit ''\<newline>'' @
     lit ''Grading rules:\<newline>'' @
     lit ''- MCQ: Full marks for correct answer only. Zero for wrong.\<newline>'' @
     lit ''- Written: Award marks proportionally based on key points covered.\<newline>'' @
     lit ''- Be specific in feedback.\<newline>'' @
     lit ''\<newline>'' @
     lit ''STUDENT ANSWERS:\<newline>'' @
     answers_json @
     lit ''\<newline>'' @
     lit ''\<newline>'' @
     lit ''SOLUTION KEY:\<newline>'' @
     solutions_json @
     lit ''\<newline>'' @
     lit ''\<newline>'' @
     (if questions_text \<noteq> []
      then lit ''QUESTIONS CONTEXT:'' @ [10] @ take 3000 questions_text else []) @
     lit ''\<newline>'' @
     lit ''\<newline>'' @
     lit ''Return grading report as JSON:\<newline>'' @
     lit ''{\<newline>'' @
     lit ''  "results": [\<newline>'' @
     lit ''    {\<newline>'' @
     lit ''      "question_number": "1",\<newline>'' @
     lit ''      "student_answer": "B",\<newline>'' @
     lit ''      "correct_answer": "B",\<newline>'' @
     lit ''      "is_correct": true,\<newline>'' @
     lit ''      "marks_awarded": 2,\<newline>'' @
     lit ''      "marks_available": 2,\<newline>'' @
     lit ''      "feedback": "Correct!"\<newline>'' @
     lit ''    }\<newline>'' @
     lit ''  ],\<newline>'' @
     lit ''  "total_marks_awarded": 20,\<newline>'' @
     lit ''  "total_marks_available": 50,\<newline>'' @
     lit ''  "percentage": 40.0,\<newline>'' @
     lit ''  "grade": "Pass",\<newline>'' @
     lit ''  "overall_feedback": "Summary of performance."\<newline>'' @
     lit ''}\<newline>'' @
     lit ''\<newline>'' @
     lit ''Return ONLY valid JSON.''\<close>

definition grade_answers ::
  "remote \<Rightarrow> pylib \<Rightarrow> client \<Rightarrow> pyval \<Rightarrow> pyval \<Rightarrow> pystr \<Rightarrow> world \<Rightarrow> pyerror + (pyval \<times> world)" where
  "grade_answers R L cl extracted_answers solutions questions_text w =
     (let w1 = print (lit ''\<newline>[Step 3] Grading answers...'') w in
      py_bind (py_get extracted_answers (lit ''answers'') (PList [])) (\<lambda>answers.
      py_bind (py_get solutions (lit ''solutions'') (PList [])) (\<lambda>sols.
      py_bind (call_gemini R cl
                 (grading_prompt (json_dumps L answers) (json_dumps L sols) questions_text)) (\<lambda>raw.
      py_bind (parse_json raw) (\<lambda>result.
      py_bind (py_get result (lit ''total_marks_awarded'') (PInt 0)) (\<lambda>awarded.
      py_bind (py_get result (lit ''total_marks_available'') (PInt 0)) (\<lambda>available.
      py_bind (py_get result (lit ''percentage'') (PInt 0)) (\<lambda>pct.
      py_bind (py_format_1f pct) (\<lambda>pct_text.
      let w2 = print (lit ''      Score: '' @ py_str L awarded @ lit ''/'' @ py_str L available @
                        lit '' ('' @ pct_text @ lit ''%)'') w1 in
      py_bind (py_get result (lit ''grade'') (PStr (lit ''N/A''))) (\<lambda>grade.
      Inr (result, print (lit ''      Grade: '' @ py_str L grade) w2)))))))))))"

text \<open>The status glyph of one result entry (line 137): a check mark when
  \<^verbatim>\<open>is_correct\<close> is true, else a tilde when \<^verbatim>\<open>marks_awarded\<close> is above zero, else a
  cross.\<close>

definition status_glyph :: "pyval \<Rightarrow> pyerror + pystr" where
  "status_glyph r =
     py_bind (py_get r (lit ''is_correct'') PNone) (\<lambda>ic.
     if py_truthy ic then Inr [10003]
     else py_bind (py_get r (lit ''marks_awarded'') (PInt 0)) (\<lambda>ma.
          py_bind (py_gt_zero ma) (\<lambda>pos. Inr (if pos then [126] else [10007]))))"

text \<open>The four lines that the loop of \<^verbatim>\<open>generate_report\<close> appends for one entry.\<close>

definition result_lines :: "pylib \<Rightarrow> pyval \<Rightarrow> pyerror + pystr list" where
  "result_lines L r =
     py_bind (status_glyph r) (\<lambda>status.
     py_bind (py_getitem r (lit ''question_number'')) (\<lambda>qn.
     py_bind (py_get r (lit ''marks_awarded'') (PInt 0)) (\<lambda>ma.
     py_bind (py_get r (lit ''marks_available'') (PInt 0)) (\<lambda>mv.
     py_bind (py_get r (lit ''student_answer'') (PStr [])) (\<lambda>sa.
     py_bind (py_get r (lit ''correct_answer'') (PStr [])) (\<lambda>ca.
     py_bind (py_get r (lit ''feedback'') (PStr [])) (\<lambda>fb.
     Inr [lit ''\<newline>  Q'' @ py_str L qn @ lit '' ['' @ status @ lit ''] '' @ py_str L ma @
            lit ''/'' @ py_str L mv @ lit '' marks'',
          lit ''  Student : '' @ take 100 (py_str L sa),
          lit ''  Correct : '' @ take 100 (py_str L ca),
          lit ''  Feedback: '' @ py_str L fb])))))))"

fun results_loop :: "pylib \<Rightarrow> pyval list \<Rightarrow> pystr list \<Rightarrow> pyerror + pystr list" where
  "results_loop L [] lines = Inr lines"
| "results_loop L (r # rs) lines =
     py_bind (result_lines L r) (\<lambda>ls. results_loop L rs (lines @ ls))"

text \<open>The list \<^verbatim>\<open>lines\<close> that \<^verbatim>\<open>generate_report\<close> builds before it joins it.\<close>

definition report_lines :: "pylib \<Rightarrow> pyval \<Rightarrow> pyval \<Rightarrow> pyerror + pystr list" where
  "report_lines L extracted grading =
     py_bind (py_get extracted (lit ''source_pdf'') (PStr (lit ''N/A''))) (\<lambda>src.
     py_bind (py_get extracted (lit ''total_questions_found'') (PInt 0)) (\<lambda>tq.
     py_bind (py_get grading (lit ''total_marks_awarded'') (PInt 0)) (\<lambda>awarded.
     py_bind (py_get grading (lit ''total_marks_available'') (PInt 0)) (\<lambda>available.
     py_bind (py_get grading (lit ''percentage'') (PInt 0)) (\<lambda>pct.
     py_bind (py_format_1f pct) (\<lambda>pct_text.
     py_bind (py_get grading (lit ''grade'') (PStr (lit ''N/A''))) (\<lambda>grade.
     py_bind (py_get grading (lit ''overall_feedback'') (PStr [])) (\<lambda>overall.
     py_bind (py_get grading (lit ''results'') (PList [])) (\<lambda>results.
     py_bind (py_iter results) (\<lambda>rs.
     py_bind (results_loop L rs
       [replicate 60 61,
        lit ''         PAPER CORRECTION REPORT'',
        replicate 60 61,
        lit ''\<newline>Source: '' @ py_str L src,
        lit ''Questions extracted: '' @ py_str L tq,
        lit ''\<newline>'' @ [9472, 9472] @ lit '' SCORE SUMMARY '' @ replicate 43 9472,
        lit ''  Total Marks : '' @ py_str L awarded @ lit '' / '' @ py_str L available,
        lit ''  Percentage  : '' @ pct_text @ lit ''%'',
        lit ''  Grade       : '' @ py_str L grade,
        lit ''\<newline>'' @ [9472, 9472] @ lit '' OVERALL FEEDBACK '' @ replicate 40 9472,
        lit ''  '' @ py_str L overall,
        lit ''\<newline>'' @ [9472, 9472] @ lit '' QUESTION-WISE RESULTS '' @ replicate 35 9472]) (\<lambda>lines.
     Inr (lines @ [lit ''\<newline>'' @ replicate 60 61]))))))))))))"

definition generate_report ::
  "pylib \<Rightarrow> pyval \<Rightarrow> pyval \<Rightarrow> pyval \<Rightarrow> pystr \<Rightarrow> world \<Rightarrow> pyerror + (pystr \<times> world)" where
  "generate_report L extracted solutions grading output_path w =
     py_bind (report_lines L extracted grading) (\<lambda>lines.
     let report_text = py_join [10] lines in
     py_bind (write_text output_path report_text w) (\<lambda>w1.
     Inr (report_text,
          print (lit ''\<newline>[Step 4] Report saved '' @ [8594] @ lit '' '' @ output_path) w1)))"

definition run_pipeline :: "remote \<Rightarrow> pylib \<Rightarrow> world \<Rightarrow> pyerror + (pyval \<times> world)" where
  "run_pipeline R L w =
     (let w1 = print (replicate 60 61) w;
          w2 = print (lit ''   PAPER CORRECTION AI  '' @ [8212] @ lit ''  Full Pipeline (FREE)'') w1;
          w3 = print (lit ''   Powered by Google Gemini 2.5 Flash-Lite (1000 RPD free)'') w2;
          w4 = print (replicate 60 61) w3
      in
      py_bind (get_client w4) (\<lambda>cl.
      py_bind (extract_handwritten_text R L HANDWRITTEN_PDF (lit ''handwritten-ans.txt'')
                 (lit ''handwritten-ans.json'')
                 (print (lit ''\<newline>[Step 1] Extracting handwritten answers...'') w4))
        (\<lambda>(extracted, w5).
      py_bind (if path_exists w5 (lit ''solutions.txt'')
               then extract_solutions R L cl (lit ''solutions.txt'') w5
               else Inr (PDict [(lit ''solutions'', PList []), (lit ''total_marks'', PInt 0)],
                         print (lit ''\<newline>[Step 2] solutions.txt not found '' @ [8212] @
                                  lit '' run extractor.py first'') w5))
        (\<lambda>(solutions, w6).
      py_bind (if path_exists w6 (lit ''question.txt'')
               then read_text w6 (lit ''question.txt'') else Inr [])
        (\<lambda>questions_text.
      py_bind (grade_answers R L cl extracted solutions questions_text w6) (\<lambda>(grading, w7).
      let final_output = PDict [(lit ''extraction'', extracted), (lit ''solutions'', solutions),
                                (lit ''grading'', grading)] in
      py_bind (write_text OUTPUT_JSON (json_dump_text L final_output) w7) (\<lambda>w8.
      py_bind (generate_report L extracted solutions grading OUTPUT_REPORT
                 (print (lit ''\<newline>      Full output saved '' @ [8594] @ lit '' '' @ OUTPUT_JSON)
                    w8))
        (\<lambda>(report, w9).
      Inr (final_output,
           print report (print (lit ''\<newline>'' @ replicate 60 9472) w9))))))))))"

section \<open>The spec's reading of the secondary attempt\<close>

text \<open>
  The spec describes the secondary attempt as taking the first top-level brace block.
  This definition follows those words, for comparison with \<open>re_search_braces\<close>: the
  block runs from the first \<^verbatim>\<open>{\<close> to the \<^verbatim>\<open>}\<close> that closes it, \<open>d\<close> counting
  the braces opened inside it and not yet closed.
\<close>

fun block_end :: "nat \<Rightarrow> pystr \<Rightarrow> pystr option" where
  "block_end d [] = None"
| "block_end d (c # cs) =
     (if c = 123 then map_option ((#) c) (block_end (Suc d) cs)
      else if c = 125 then
        (if d = 0 then Some [c] else map_option ((#) c) (block_end (d - 1) cs))
      else map_option ((#) c) (block_end d cs))"

definition spec_first_block :: "pystr \<Rightarrow> pystr option" where
  "spec_first_block s =
     (case dropWhile (\<lambda>c. c \<noteq> 123) s of
        [] \<Rightarrow> None
      | b # rest \<Rightarrow> map_option ((#) b) (block_end 0 rest))"

section \<open>Evaluation rules and string lemmas\<close>

lemmas str_eval = py_strip_def py_isspace_def py_replace_def re_search_braces_def

lemmas json_eval = json_loads_def skip_ws_def json_ws_def match_number_def exp_part_def
  is_digit_def digits_val_def Let_def cons_res_def backslash_def hexval_def

lemma replace_scan_no_match:
  "\<not> sublist old s \<Longrightarrow> replace_scan old new s = s"
proof (induction s)
  case Nil show ?case by simp
next
  case (Cons c cs)
  have a: "\<not> prefix old (c # cs)" using Cons.prems by (auto simp: sublist_Cons_right)
  have b: "\<not> sublist old cs" using Cons.prems by (auto simp: sublist_Cons_right)
  show ?case using a Cons.IH[OF b] by simp
qed

lemma fence_json_absent:
  assumes "\<not> sublist (lit ''```'') body"
  shows "\<not> sublist (lit ''```json'') (body @ lit ''```'')"
proof
  assume "sublist (lit ''```json'') (body @ lit ''```'')"
  then obtain ps ss where e: "body @ lit ''```'' = (ps @ lit ''```'') @ (lit ''json'' @ ss)"
    by (auto simp: sublist_def)
  then obtain us where "(body = (ps @ lit ''```'') @ us \<and> us @ lit ''```'' = lit ''json'' @ ss)
      \<or> (body @ us = ps @ lit ''```'' \<and> lit ''```'' = us @ lit ''json'' @ ss)"
    unfolding append_eq_append_conv2 by blast
  then show False
  proof
    assume "body = (ps @ lit ''```'') @ us \<and> us @ lit ''```'' = lit ''json'' @ ss"
    then have "sublist (lit ''```'') body" by (auto simp: sublist_def)
    with assms show False by simp
  next
    assume "body @ us = ps @ lit ''```'' \<and> lit ''```'' = us @ lit ''json'' @ ss"
    then have "length (lit ''```'') = length (us @ lit ''json'' @ ss)" by metis
    then show False by simp
  qed
qed

lemma closing_fence_removed:
  "\<not> sublist (lit ''```'') body \<Longrightarrow> replace_scan (lit ''```'') [] (body @ lit ''```'') = body"
proof (induction body)
  case Nil show ?case by simp
next
  case (Cons c cs)
  have a: "\<not> prefix (lit ''```'') (c # cs)" using Cons.prems by (auto simp: sublist_Cons_right)
  have b: "\<not> sublist (lit ''```'') cs" using Cons.prems by (auto simp: sublist_Cons_right)
  show ?case
  proof (cases "prefix (lit ''```'') (c # cs @ lit ''```'')")
    case False
    then show ?thesis using Cons.IH[OF b] by auto
  next
    case True
    show ?thesis
    proof (cases cs)
      case Nil
      then show ?thesis using True by simp
    next
      case (Cons d ds)
      show ?thesis
      proof (cases ds)
        case Nil
        then show ?thesis using True Cons by simp
      next
        case (Cons e es)
        then show ?thesis using True a \<open>cs = d # ds\<close> by simp
      qed
    qed
  qed
qed

lemma fenced_body_clean:
  assumes "\<not> sublist (lit ''```'') body"
  shows "py_replace (lit ''```'') [] (py_replace (lit ''```json'') [] (lit ''```json'' @ body @ lit ''```''))
         = body"
proof -
  have "replace_scan (lit ''```json'') [] (lit ''```json'' @ body @ lit ''```'')
        = replace_scan (lit ''```json'') [] (body @ lit ''```'')"
    by simp
  also have "\<dots> = body @ lit ''```''"
    using replace_scan_no_match[OF fence_json_absent[OF assms]] .
  finally show ?thesis
    using closing_fence_removed[OF assms] by (simp add: py_replace_def)
qed






lemma re_search_braces_span:
  assumes "123 \<notin> set pre" "125 \<notin> set post"
  shows "re_search_braces (pre @ 123 # mid @ 125 # post) = Some (123 # mid @ [125])"
proof -
  have d: "dropWhile (\<lambda>c. c \<noteq> 123) (pre @ 123 # mid @ 125 # post) = 123 # mid @ 125 # post"
    using assms(1) by (induction pre) auto
  have r: "dropWhile (\<lambda>c. c \<noteq> 125) (rev post @ 125 # rev mid) = 125 # rev mid"
    using assms(2) by (induction post rule: rev_induct) auto
  show ?thesis
    unfolding re_search_braces_def d by (simp add: r)
qed

section \<open>The JSON repair of the Transcriber and of the pipeline\<close>



text \<open>
  C2.  On the response \<^verbatim>\<open>{not json}\<close> both attempts of \<^verbatim>\<open>_parse_json\<close> fail, the
  second on the block that the pattern matched.  The error that leaves the function is
  the \<^verbatim>\<open>JSONDecodeError\<close> of that second \<^verbatim>\<open>json.loads\<close>, not the \<^verbatim>\<open>ValueError\<close>
  whose message carries the first 300 characters of the response.
\<close>

theorem parse_json_block_error:
  "parse_json (lit ''{not json}'') = Inl JSONDecodeError"
  by (simp add: parse_json_def str_eval json_eval)

text \<open>Where the pattern matches nothing, the error is the \<^verbatim>\<open>ValueError\<close> with the first
  300 characters.\<close>

lemma parse_json_no_block:
  assumes "json_loads (py_strip (py_replace (lit ''```'') []
             (py_replace (lit ''```json'') [] raw))) = None"
    and "re_search_braces raw = None"
  shows "parse_json raw =
           Inl (ValueError (lit ''Could not parse response as JSON:\<newline>'' @ take 300 raw))"
  using assms by (simp add: parse_json_def)

text \<open>
  The secondary attempt does not take the first top-level block.  In a response with
  two objects the pattern matches from the first \<^verbatim>\<open>{\<close> to the last \<^verbatim>\<open>}\<close>, both
  objects and the prose between them; that text does not decode, although the first
  block alone does.
\<close>

theorem repair_not_first_block:
  \<open>re_search_braces (lit ''Answer: {"x": 1} and also {"y": 2}.'')
     = Some (lit ''{"x": 1} and also {"y": 2}'')
   \<and> spec_first_block (lit ''Answer: {"x": 1} and also {"y": 2}.'') = Some (lit ''{"x": 1}'')
   \<and> json_loads (lit ''{"x": 1}'') = Some (PDict [(lit ''x'', PInt 1)])
   \<and> parse_json (lit ''Answer: {"x": 1} and also {"y": 2}.'') = Inl JSONDecodeError
   \<and> parse_transcription (lit ''Answer: {"x": 1} and also {"y": 2}.'') \<noteq> PDict [(lit ''x'', PInt 1)]\<close>
  by (simp add: parse_json_def parse_transcription_def spec_first_block_def str_eval json_eval)

text \<open>
  C3 (amended).  When the text with the fence markers deleted does not decode and a
  \<^verbatim>\<open>}\<close> follows the first \<^verbatim>\<open>{\<close> of the response, the secondary attempt extracts the
  text from the first \<^verbatim>\<open>{\<close> to the last \<^verbatim>\<open>}\<close> of the response and parses exactly
  that.  In particular, for a JSON object between prose that has no \<^verbatim>\<open>{\<close> before the
  object and no \<^verbatim>\<open>}\<close> after it, \<^verbatim>\<open>_parse_json\<close> and the Transcriber return the object
  obtained by parsing exactly that embedded object.
\<close>

theorem repair_parses_first_to_last_brace:
  assumes "json_loads (py_strip (py_replace (lit ''```'') []
             (py_replace (lit ''```json'') [] raw))) = None"
    and "raw = pre @ 123 # mid @ 125 # post"
    and "123 \<notin> set pre" and "125 \<notin> set post"
  shows "re_search_braces raw = Some (123 # mid @ [125]) \<and>
         (\<forall>v. json_loads (123 # mid @ [125]) = Some v \<longrightarrow>
              parse_json raw = Inr v \<and> parse_transcription raw = v)"
proof -
  have m: "re_search_braces raw = Some (123 # mid @ [125])"
    unfolding assms(2) by (rule re_search_braces_span[OF assms(3,4)])
  show ?thesis
    using assms(1) m by (simp add: parse_json_def parse_transcription_def)
qed

theorem repair_parses_first_to_last_brace_witness:
  \<open>re_search_braces (lit ''Here you go: {"answers": [], "pages_processed": 2} Done!'')
     = Some (lit ''{"answers": [], "pages_processed": 2}'')
   \<and> parse_json (lit ''Here you go: {"answers": [], "pages_processed": 2} Done!'')
     = Inr (PDict [(lit ''answers'', PList []), (lit ''pages_processed'', PInt 2)])
   \<and> parse_transcription (lit ''Here you go: {"answers": [], "pages_processed": 2} Done!'')
     = PDict [(lit ''answers'', PList []), (lit ''pages_processed'', PInt 2)]\<close>
proof -
  let ?raw = \<open>lit ''Here you go: {"answers": [], "pages_processed": 2} Done!''\<close>
  let ?mid = \<open>lit ''"answers": [], "pages_processed": 2''\<close>
  have a: "json_loads (py_strip (py_replace (lit ''```'') []
             (py_replace (lit ''```json'') [] ?raw))) = None"
    by (simp add: str_eval json_eval)
  have b: "?raw = lit ''Here you go: '' @ 123 # ?mid @ 125 # lit '' Done!''" by simp
  have c: "123 \<notin> set (lit ''Here you go: '')" by simp
  have d: "125 \<notin> set (lit '' Done!'')" by simp
  have e: "json_loads (123 # ?mid @ [125])
        = Some (PDict [(lit ''answers'', PList []), (lit ''pages_processed'', PInt 2)])"
    by (simp add: json_eval)
  show ?thesis
    using repair_parses_first_to_last_brace[OF a b c d] e by simp
qed

text \<open>
  A response wrapped in fences whose JSON has a string value containing a fence: the
  first attempt deletes the three backticks inside the string as well, so the object
  returned differs from the parse of the text between the wrapping fences.
\<close>

theorem fence_inside_string_lost:
  \<open>parse_json (lit ''```json\<newline>{"answer": "use ``` for code"}\<newline>```'')
     = Inr (PDict [(lit ''answer'', PStr (lit ''use  for code''))])
   \<and> parse_transcription (lit ''```json\<newline>{"answer": "use ``` for code"}\<newline>```'')
     = PDict [(lit ''answer'', PStr (lit ''use  for code''))]
   \<and> json_loads (lit ''\<newline>{"answer": "use ``` for code"}\<newline>'')
     = Some (PDict [(lit ''answer'', PStr (lit ''use ``` for code''))])\<close>
  by (simp add: parse_json_def parse_transcription_def str_eval json_eval)

text \<open>
  C4 (amended).  For every response that is \<^verbatim>\<open>```json\<close>, a body and \<^verbatim>\<open>```\<close>, where
  the body contains no three consecutive backticks and, stripped of surrounding
  whitespace, is a JSON document, the repair step (of \<^verbatim>\<open>_parse_json\<close> and of the
  Transcriber) returns the object obtained by parsing the body.
\<close>

theorem fenced_json_parsed:
  assumes "\<not> sublist (lit ''```'') body"
    and "json_loads (py_strip body) = Some v"
  shows "parse_json (lit ''```json'' @ body @ lit ''```'') = Inr v \<and>
         parse_transcription (lit ''```json'' @ body @ lit ''```'') = v"
  using assms(2) fenced_body_clean[OF assms(1)]
  by (simp add: parse_json_def parse_transcription_def)

theorem fenced_json_parsed_witness:
  \<open>parse_json (lit ''```json\<newline>{"solutions": [], "total_marks": 50}\<newline>```'')
     = Inr (PDict [(lit ''solutions'', PList []), (lit ''total_marks'', PInt 50)])
   \<and> parse_transcription (lit ''```json\<newline>{"solutions": [], "total_marks": 50}\<newline>```'')
     = PDict [(lit ''solutions'', PList []), (lit ''total_marks'', PInt 50)]\<close>
proof -
  let ?body = \<open>lit ''\<newline>{"solutions": [], "total_marks": 50}\<newline>''\<close>
  have a: "\<not> sublist (lit ''```'') ?body"
    by (simp add: sublist_Cons_right)
  have b: "json_loads (py_strip ?body)
         = Some (PDict [(lit ''solutions'', PList []), (lit ''total_marks'', PInt 50)])"
    by (simp add: str_eval json_eval)
  show ?thesis
    using fenced_json_parsed[OF a b] by simp
qed


section \<open>The Printed-Text Extractor\<close>








section \<open>The Report Generator\<close>

lemma py_bind_eq_Inr: "py_bind m f = Inr y \<longleftrightarrow> (\<exists>x. m = Inr x \<and> f x = Inr y)"
  by (cases m) (auto simp: py_bind_def)

lemma results_loop_prefix: "results_loop L rs acc = Inr ls \<Longrightarrow> prefix acc ls"
proof (induction rs arbitrary: acc)
  case Nil then show ?case by simp
next
  case (Cons r rs)
  then obtain b where "result_lines L r = Inr b" and "results_loop L rs (acc @ b) = Inr ls"
    by (auto simp: py_bind_eq_Inr)
  then have "prefix (acc @ b) ls" using Cons.IH by blast
  then show ?case using append_prefixD by blast
qed

lemma results_loop_entry:
  "results_loop L rs acc = Inr ls \<Longrightarrow> r \<in> set rs \<Longrightarrow>
   \<exists>b. result_lines L r = Inr b \<and> sublist b ls"
proof (induction rs arbitrary: acc)
  case Nil then show ?case by simp
next
  case (Cons x rs)
  then obtain b where b: "result_lines L x = Inr b" and l: "results_loop L rs (acc @ b) = Inr ls"
    by (auto simp: py_bind_eq_Inr)
  show ?case
  proof (cases "r = x")
    case True
    have "prefix (acc @ b) ls" using l by (rule results_loop_prefix)
    then obtain zs where "ls = acc @ b @ zs" by (auto simp: prefix_def)
    then have "sublist b ls" by (auto simp: sublist_def)
    then show ?thesis using b True by blast
  next
    case False
    then have "r \<in> set rs" using Cons.prems(2) by simp
    then show ?thesis using Cons.IH[OF l] by blast
  qed
qed

lemma py_bind_Inr [simp]: "py_bind (Inr x) f = f x"
  by (simp add: py_bind_def)

lemma py_bind_Inl [simp]: "py_bind (Inl e) f = Inl e"
  by (simp add: py_bind_def)

lemma report_lines_parts:
  assumes "report_lines L extracted grading = Inr ls"
  obtains src tq awarded available pct pct_text grade overall results rs body where
    "py_get grading (lit ''total_marks_awarded'') (PInt 0) = Inr awarded"
    "py_get grading (lit ''total_marks_available'') (PInt 0) = Inr available"
    "py_get grading (lit ''percentage'') (PInt 0) = Inr pct"
    "py_format_1f pct = Inr pct_text"
    "py_get grading (lit ''results'') (PList []) = Inr results"
    "py_iter results = Inr rs"
    "results_loop L rs
       [replicate 60 61,
        lit ''         PAPER CORRECTION REPORT'',
        replicate 60 61,
        lit ''\<newline>Source: '' @ py_str L src,
        lit ''Questions extracted: '' @ py_str L tq,
        lit ''\<newline>'' @ [9472, 9472] @ lit '' SCORE SUMMARY '' @ replicate 43 9472,
        lit ''  Total Marks : '' @ py_str L awarded @ lit '' / '' @ py_str L available,
        lit ''  Percentage  : '' @ pct_text @ lit ''%'',
        lit ''  Grade       : '' @ py_str L grade,
        lit ''\<newline>'' @ [9472, 9472] @ lit '' OVERALL FEEDBACK '' @ replicate 40 9472,
        lit ''  '' @ py_str L overall,
        lit ''\<newline>'' @ [9472, 9472] @ lit '' QUESTION-WISE RESULTS '' @ replicate 35 9472] = Inr body"
    "ls = body @ [lit ''\<newline>'' @ replicate 60 61]"
  using assms unfolding report_lines_def py_bind_eq_Inr sum.inject
  by (elim exE conjE) (rule that, assumption+, erule sym)

lemma report_lines_head:
  assumes "report_lines L extracted grading = Inr ls"
  shows "\<exists>awarded available pct pct_text.
           py_get grading (lit ''total_marks_awarded'') (PInt 0) = Inr awarded \<and>
           py_get grading (lit ''total_marks_available'') (PInt 0) = Inr available \<and>
           py_get grading (lit ''percentage'') (PInt 0) = Inr pct \<and>
           py_format_1f pct = Inr pct_text \<and>
           13 \<le> length ls \<and>
           ls ! 6 = lit ''  Total Marks : '' @ py_str L awarded @ lit '' / '' @ py_str L available \<and>
           ls ! 7 = lit ''  Percentage  : '' @ pct_text @ lit ''%''"
proof -
  from assms obtain src tq awarded available pct pct_text grade overall results rs body where
    g: "py_get grading (lit ''total_marks_awarded'') (PInt 0) = Inr awarded"
       "py_get grading (lit ''total_marks_available'') (PInt 0) = Inr available"
       "py_get grading (lit ''percentage'') (PInt 0) = Inr pct"
       "py_format_1f pct = Inr pct_text"
    and l: "results_loop L rs
       [replicate 60 61,
        lit ''         PAPER CORRECTION REPORT'',
        replicate 60 61,
        lit ''\<newline>Source: '' @ py_str L src,
        lit ''Questions extracted: '' @ py_str L tq,
        lit ''\<newline>'' @ [9472, 9472] @ lit '' SCORE SUMMARY '' @ replicate 43 9472,
        lit ''  Total Marks : '' @ py_str L awarded @ lit '' / '' @ py_str L available,
        lit ''  Percentage  : '' @ pct_text @ lit ''%'',
        lit ''  Grade       : '' @ py_str L grade,
        lit ''\<newline>'' @ [9472, 9472] @ lit '' OVERALL FEEDBACK '' @ replicate 40 9472,
        lit ''  '' @ py_str L overall,
        lit ''\<newline>'' @ [9472, 9472] @ lit '' QUESTION-WISE RESULTS '' @ replicate 35 9472] = Inr body"
    and e: "ls = body @ [lit ''\<newline>'' @ replicate 60 61]"
    by (rule report_lines_parts)
  from results_loop_prefix[OF l] obtain zs where
    b: "body = [replicate 60 61,
        lit ''         PAPER CORRECTION REPORT'',
        replicate 60 61,
        lit ''\<newline>Source: '' @ py_str L src,
        lit ''Questions extracted: '' @ py_str L tq,
        lit ''\<newline>'' @ [9472, 9472] @ lit '' SCORE SUMMARY '' @ replicate 43 9472,
        lit ''  Total Marks : '' @ py_str L awarded @ lit '' / '' @ py_str L available,
        lit ''  Percentage  : '' @ pct_text @ lit ''%'',
        lit ''  Grade       : '' @ py_str L grade,
        lit ''\<newline>'' @ [9472, 9472] @ lit '' OVERALL FEEDBACK '' @ replicate 40 9472,
        lit ''  '' @ py_str L overall,
        lit ''\<newline>'' @ [9472, 9472] @ lit '' QUESTION-WISE RESULTS '' @ replicate 35 9472] @ zs"
    by (auto simp: prefix_def)
  have "ls ! 6 = lit ''  Total Marks : '' @ py_str L awarded @ lit '' / '' @ py_str L available"
    unfolding e b by (simp add: nth_append)
  moreover have "ls ! 7 = lit ''  Percentage  : '' @ pct_text @ lit ''%''"
    unfolding e b by (simp add: nth_append)
  moreover have "13 \<le> length ls"
    unfolding e b by simp
  ultimately show ?thesis using g by blast
qed

lemma report_lines_entry:
  assumes "report_lines L extracted grading = Inr ls"
    and "py_get grading (lit ''results'') (PList []) = Inr (PList rs)"
    and "r \<in> set rs"
  shows "\<exists>b. result_lines L r = Inr b \<and> sublist b ls"
proof -
  from assms(1) obtain acc results rs' body where
    r: "py_get grading (lit ''results'') (PList []) = Inr results" "py_iter results = Inr rs'"
    and l: "results_loop L rs' acc = Inr body" "ls = body @ [lit ''\<newline>'' @ replicate 60 61]"
    by (rule report_lines_parts)
  have "rs' = rs" using r assms(2) by simp
  from results_loop_entry[OF l(1)] assms(3) this obtain b where
    b: "result_lines L r = Inr b" "sublist b body" by blast
  have "sublist body ls" unfolding l(2) by (rule prefix_imp_sublist) simp
  then have "sublist b ls" using b(2) sublist_order.order_trans by blast
  then show ?thesis using b(1) by blast
qed

lemma generate_report_Inr:
  assumes "generate_report L extracted solutions grading output_path w = Inr (report, w')"
  shows "\<exists>ls. report_lines L extracted grading = Inr ls \<and> report = py_join [10] ls \<and>
              files w' output_path = Some report"
  using assms unfolding generate_report_def py_bind_eq_Inr
  by (auto simp: Let_def write_text_def file_write_def print_def split: if_splits)

lemma str_nat_all_digits: "str_nat n \<noteq> [] \<and> list_all is_digit (str_nat n)"
proof (induction n rule: str_nat.induct)
  case (1 n)
  have "n mod 10 < 10" by simp
  then have d: "is_digit (48 + n mod 10)" unfolding is_digit_def by linarith
  show ?case
  proof (cases "n < 10")
    case True
    then have "is_digit (48 + n)" unfolding is_digit_def by linarith
    then show ?thesis using True by (subst (1 2) str_nat.simps) simp
  next
    case False
    then show ?thesis using 1 d by (subst (1 2) str_nat.simps) simp
  qed
qed

lemma float_format_1f_shape:
  "\<exists>sgn ds d. float_format_1f (Finite s m e) = sgn @ ds @ [46, d] \<and> (sgn = [] \<or> sgn = [45]) \<and>
     ds \<noteq> [] \<and> list_all is_digit ds \<and> is_digit d"
proof -
  have "tenths m e mod 10 < 10" by simp
  then have "is_digit (48 + tenths m e mod 10)" unfolding is_digit_def by linarith
  then show ?thesis
    using str_nat_all_digits[of "tenths m e div 10"]
    by (intro exI[of _ "if s then [45] else []"] exI[of _ "str_nat (tenths m e div 10)"]
        exI[of _ "48 + tenths m e mod 10"]) simp
qed

lemma int_to_float_Finite: "int_to_float n = Inr f \<Longrightarrow> \<exists>s m e. f = Finite s m e"
  by (cases "round_double (n < 0) (nat \<bar>n\<bar>) 1") (auto simp: int_to_float_def)

lemma py_format_1f_shape:
  assumes "py_format_1f pct = Inr txt"
    and "pct \<noteq> PFloat NaN" and "pct \<noteq> PFloat (Inf False)" and "pct \<noteq> PFloat (Inf True)"
  shows "\<exists>sgn ds d. txt = sgn @ ds @ [46, d] \<and> (sgn = [] \<or> sgn = [45]) \<and>
     ds \<noteq> [] \<and> list_all is_digit ds \<and> is_digit d"
proof (cases pct)
  case (PFloat f)
  then obtain s m e where "f = Finite s m e" using assms(2,3,4) by (cases f) auto
  then show ?thesis using assms(1) PFloat float_format_1f_shape[of s m e] by auto
next
  case (PInt n)
  then obtain f where f: "int_to_float n = Inr f" "txt = float_format_1f f"
    using assms(1) by (cases "int_to_float n") auto
  then obtain s m e where "f = Finite s m e" using int_to_float_Finite by blast
  then show ?thesis using f float_format_1f_shape[of s m e] by auto
next
  case (PBool b)
  then obtain f where f: "int_to_float (if b then 1 else 0) = Inr f" "txt = float_format_1f f"
    using assms(1) by (cases "int_to_float (if b then 1 else 0)") auto
  then obtain s m e where "f = Finite s m e" using int_to_float_Finite by blast
  then show ?thesis using f float_format_1f_shape[of s m e] by auto
qed (use assms(1) in auto)

lemma status_glyph_cases:
  assumes "status_glyph r = Inr st"
  shows "\<exists>ic. py_get r (lit ''is_correct'') PNone = Inr ic \<and>
           (if py_truthy ic then st = [10003]
            else \<exists>ma pos. py_get r (lit ''marks_awarded'') (PInt 0) = Inr ma \<and>
                   py_gt_zero ma = Inr pos \<and> st = (if pos then [126] else [10007]))"
proof -
  from assms obtain ic where
    ic: "py_get r (lit ''is_correct'') PNone = Inr ic"
    and rest: "(if py_truthy ic then Inr [10003]
         else py_bind (py_get r (lit ''marks_awarded'') (PInt 0)) (\<lambda>ma.
              py_bind (py_gt_zero ma) (\<lambda>pos. Inr (if pos then [126] else [10007])))) = Inr st"
    unfolding status_glyph_def py_bind_eq_Inr by blast
  show ?thesis
  proof (cases "py_truthy ic")
    case True
    then have "st = [10003]" using rest by simp
    then show ?thesis using ic True by auto
  next
    case False
    then have "py_bind (py_get r (lit ''marks_awarded'') (PInt 0)) (\<lambda>ma.
              py_bind (py_gt_zero ma) (\<lambda>pos. Inr (if pos then [126] else [10007]))) = Inr st"
      using rest by simp
    then obtain ma pos where "py_get r (lit ''marks_awarded'') (PInt 0) = Inr ma"
      "py_gt_zero ma = Inr pos" "st = (if pos then [126] else [10007])"
      unfolding py_bind_eq_Inr sum.inject by metis
    then show ?thesis using ic False by auto
  qed
qed

lemma result_lines_parts:
  assumes "result_lines L r = Inr b"
  obtains status qn ma mv sa ca fb where
    "status_glyph r = Inr status"
    "py_getitem r (lit ''question_number'') = Inr qn"
    "py_get r (lit ''marks_awarded'') (PInt 0) = Inr ma"
    "py_get r (lit ''marks_available'') (PInt 0) = Inr mv"
    "py_get r (lit ''student_answer'') (PStr []) = Inr sa"
    "py_get r (lit ''correct_answer'') (PStr []) = Inr ca"
    "py_get r (lit ''feedback'') (PStr []) = Inr fb"
    "b = [lit ''\<newline>  Q'' @ py_str L qn @ lit '' ['' @ status @ lit ''] '' @ py_str L ma @
            lit ''/'' @ py_str L mv @ lit '' marks'',
          lit ''  Student : '' @ take 100 (py_str L sa),
          lit ''  Correct : '' @ take 100 (py_str L ca),
          lit ''  Feedback: '' @ py_str L fb]"
  using assms unfolding result_lines_def py_bind_eq_Inr sum.inject
  by (elim exE conjE) (rule that, assumption+, erule sym)

lemmas value_eval = py_get_def py_getitem_def str_int_def str_nat.simps tenths_def
  div_half_even_def int_to_float_def round_double_def scaled_div_def bits.simps

lemma list_all_replicate: "list_all P (replicate n x) \<longleftrightarrow> n = 0 \<or> P x"
  by (induction n) auto

lemmas report_eval = generate_report_def report_lines_def result_lines_def status_glyph_def
  write_text_def file_write_def encodable_def print_def list_all_replicate Let_def

text \<open>
  A percentage that is not a finite number is not rendered with a decimal place.  The
  decoder accepts \<^verbatim>\<open>NaN\<close>, and the report of such a grading record, with 20 marks
  of 50, reads \<^verbatim>\<open>nan%\<close>.  The parameters of the library are not reached on this
  input.
\<close>

theorem percentage_nan_rendering:
  \<open>parse_json (lit ''{"total_marks_awarded": 20, "total_marks_available": 50, "percentage": NaN}'')
     = Inr (PDict [(lit ''total_marks_awarded'', PInt 20), (lit ''total_marks_available'', PInt 50),
                   (lit ''percentage'', PFloat NaN)]) \<and>
   map_sum id fst
     (generate_report
        \<lparr>repr_other = (\<lambda>v. []), json_dumps = (\<lambda>v. []), json_dump_text = (\<lambda>v. []),
         str_upper = (\<lambda>t. t)\<rparr>
        (PDict []) (PDict [])
        (PDict [(lit ''total_marks_awarded'', PInt 20), (lit ''total_marks_available'', PInt 50),
                (lit ''percentage'', PFloat NaN)])
        (lit ''grading_report.txt'')
        \<lparr>files = Map.empty, stdout = [], environ = Map.empty\<rparr>)
     = Inr (py_join [10]
         [replicate 60 61,
          lit ''         PAPER CORRECTION REPORT'',
          replicate 60 61,
          lit ''\<newline>Source: N/A'',
          lit ''Questions extracted: 0'',
          lit ''\<newline>'' @ [9472, 9472] @ lit '' SCORE SUMMARY '' @ replicate 43 9472,
          lit ''  Total Marks : 20 / 50'',
          lit ''  Percentage  : nan%'',
          lit ''  Grade       : N/A'',
          lit ''\<newline>'' @ [9472, 9472] @ lit '' OVERALL FEEDBACK '' @ replicate 40 9472,
          lit ''  '',
          lit ''\<newline>'' @ [9472, 9472] @ lit '' QUESTION-WISE RESULTS '' @ replicate 35 9472,
          lit ''\<newline>'' @ replicate 60 61])\<close>
  by (simp add: parse_json_def str_eval json_eval report_eval value_eval)

text \<open>
  C7 (amended).  Whenever \<^verbatim>\<open>generate_report\<close> produces a report, the report is the
  lines joined by line feeds and is what the file holds.  For every grading record
  whose \<^verbatim>\<open>total_marks_awarded\<close> is 20 and \<^verbatim>\<open>total_marks_available\<close> is 50, its
  seventh line reads \<^verbatim>\<open>  Total Marks : 20 / 50\<close>.  For every grading record whose
  \<^verbatim>\<open>percentage\<close> is a finite number (an integer, a boolean or a float that is neither
  NaN nor an infinity), the eighth line renders it with exactly one decimal place: an
  optional minus sign, at least one digit, a point, one digit and the percent sign.
\<close>

theorem report_summary_and_percentage:
  assumes "generate_report L extracted solutions grading output_path w = Inr (report, w')"
  shows "\<exists>lines pct pct_text.
     report = py_join [10] lines \<and> files w' output_path = Some report \<and>
     13 \<le> length lines \<and>
     py_get grading (lit ''percentage'') (PInt 0) = Inr pct \<and>
     py_format_1f pct = Inr pct_text \<and>
     lines ! 7 = lit ''  Percentage  : '' @ pct_text @ lit ''%'' \<and>
     (py_get grading (lit ''total_marks_awarded'') (PInt 0) = Inr (PInt 20) \<and>
      py_get grading (lit ''total_marks_available'') (PInt 0) = Inr (PInt 50) \<longrightarrow>
        lines ! 6 = lit ''  Total Marks : 20 / 50'') \<and>
     (pct \<noteq> PFloat NaN \<and> pct \<noteq> PFloat (Inf False) \<and> pct \<noteq> PFloat (Inf True) \<longrightarrow>
        (\<exists>sgn ds d. pct_text = sgn @ ds @ [46, d] \<and> (sgn = [] \<or> sgn = [45]) \<and>
           ds \<noteq> [] \<and> list_all is_digit ds \<and> is_digit d))"
proof -
  from generate_report_Inr[OF assms] obtain ls where
    ls: "report_lines L extracted grading = Inr ls" "report = py_join [10] ls"
        "files w' output_path = Some report" by blast
  from report_lines_head[OF ls(1)] obtain awarded available pct pct_text where
    h: "py_get grading (lit ''total_marks_awarded'') (PInt 0) = Inr awarded"
       "py_get grading (lit ''total_marks_available'') (PInt 0) = Inr available"
       "py_get grading (lit ''percentage'') (PInt 0) = Inr pct"
       "py_format_1f pct = Inr pct_text"
       "ls ! 6 = lit ''  Total Marks : '' @ py_str L awarded @ lit '' / '' @ py_str L available"
       "ls ! 7 = lit ''  Percentage  : '' @ pct_text @ lit ''%''"
       "13 \<le> length ls"
    by blast
  have t: "str_int 20 = lit ''20''" "str_int 50 = lit ''50''"
    by (simp_all add: str_int_def str_nat.simps)
  have a: "awarded = PInt 20 \<and> available = PInt 50 \<longrightarrow> ls ! 6 = lit ''  Total Marks : 20 / 50''"
    using h(5) t by auto
  have b: "pct \<noteq> PFloat NaN \<and> pct \<noteq> PFloat (Inf False) \<and> pct \<noteq> PFloat (Inf True) \<longrightarrow>
        (\<exists>sgn ds d. pct_text = sgn @ ds @ [46, d] \<and> (sgn = [] \<or> sgn = [45]) \<and>
           ds \<noteq> [] \<and> list_all is_digit ds \<and> is_digit d)"
    using py_format_1f_shape[OF h(4)] by blast
  show ?thesis
    using ls(2,3) h(1,2,3,4,6,7) a b
    by (intro exI[of _ ls] exI[of _ pct] exI[of _ pct_text]) simp
qed

theorem report_summary_and_percentage_witness:
  \<open>\<exists>g report w' lines.
     parse_json (lit ''{"results": [], "total_marks_awarded": 20, "total_marks_available": 50, "percentage": 40.0, "grade": "Pass"}'') = Inr g \<and>
     generate_report
       \<lparr>repr_other = (\<lambda>v. []), json_dumps = (\<lambda>v. []), json_dump_text = (\<lambda>v. []),
        str_upper = (\<lambda>t. t)\<rparr>
       (PDict [(lit ''total_questions_found'', PInt 3)]) (PDict []) g (lit ''grading_report.txt'')
       \<lparr>files = Map.empty, stdout = [], environ = Map.empty\<rparr> = Inr (report, w') \<and>
     report = py_join [10] lines \<and>
     files w' (lit ''grading_report.txt'') = Some report \<and>
     lines ! 6 = lit ''  Total Marks : 20 / 50'' \<and>
     lines ! 7 = lit ''  Percentage  : 40.0%''\<close>
proof -
  let ?L = "\<lparr>repr_other = (\<lambda>v. []), json_dumps = (\<lambda>v. []), json_dump_text = (\<lambda>v. []),
        str_upper = (\<lambda>t. t)\<rparr>"
  let ?g = "PDict [(lit ''results'', PList []), (lit ''total_marks_awarded'', PInt 20),
                   (lit ''total_marks_available'', PInt 50),
                   (lit ''percentage'', PFloat (Finite False 5629499534213120 (- 47))),
                   (lit ''grade'', PStr (lit ''Pass''))]"
  let ?w = "\<lparr>files = Map.empty, stdout = [], environ = Map.empty\<rparr>"
  have pj: \<open>parse_json (lit ''{"results": [], "total_marks_awarded": 20, "total_marks_available": 50, "percentage": 40.0, "grade": "Pass"}'') = Inr ?g\<close>
    by (simp add: parse_json_def str_eval json_eval dec_to_float_def value_eval)
  have "\<exists>report w'. generate_report ?L (PDict [(lit ''total_questions_found'', PInt 3)]) (PDict [])
          ?g (lit ''grading_report.txt'') ?w = Inr (report, w')"
    by (simp add: report_eval value_eval)
  then obtain report w' where gr: "generate_report ?L (PDict [(lit ''total_questions_found'', PInt 3)])
          (PDict []) ?g (lit ''grading_report.txt'') ?w = Inr (report, w')" by blast
  from report_summary_and_percentage[OF gr] obtain lines pct pct_text where
    c: "report = py_join [10] lines" "files w' (lit ''grading_report.txt'') = Some report"
       "py_get ?g (lit ''percentage'') (PInt 0) = Inr pct"
       "py_format_1f pct = Inr pct_text"
       "lines ! 7 = lit ''  Percentage  : '' @ pct_text @ lit ''%''"
       "py_get ?g (lit ''total_marks_awarded'') (PInt 0) = Inr (PInt 20) \<and>
        py_get ?g (lit ''total_marks_available'') (PInt 0) = Inr (PInt 50) \<longrightarrow>
          lines ! 6 = lit ''  Total Marks : 20 / 50''"
    by blast
  have "pct = PFloat (Finite False 5629499534213120 (- 47))"
    using c(3) by (simp add: py_get_def)
  then have "pct_text = lit ''40.0''"
    using c(4) by (simp add: value_eval)
  then have l7: "lines ! 7 = lit ''  Percentage  : 40.0%''" using c(5) by simp
  have l6: "lines ! 6 = lit ''  Total Marks : 20 / 50''"
    using c(6) by (simp add: py_get_def)
  show ?thesis using pj gr c(1,2) l6 l7 by blast
qed

text \<open>
  The glyph does not compare the marks awarded with the marks available.  An entry
  with 2 marks of 2 whose \<^verbatim>\<open>is_correct\<close> is false gets the tilde, and an entry with 0
  marks of 2 whose \<^verbatim>\<open>is_correct\<close> is true gets the check mark.
\<close>

theorem glyph_ignores_marks_available:
  "status_glyph (PDict [(lit ''question_number'', PStr (lit ''1'')),
                        (lit ''is_correct'', PBool False),
                        (lit ''marks_awarded'', PInt 2), (lit ''marks_available'', PInt 2)])
     = Inr [126] \<and>
   status_glyph (PDict [(lit ''question_number'', PStr (lit ''2'')),
                        (lit ''is_correct'', PBool True),
                        (lit ''marks_awarded'', PInt 0), (lit ''marks_available'', PInt 2)])
     = Inr [10003] \<and>
   result_lines
     \<lparr>repr_other = (\<lambda>v. []), json_dumps = (\<lambda>v. []), json_dump_text = (\<lambda>v. []),
      str_upper = (\<lambda>t. t)\<rparr>
     (PDict [(lit ''question_number'', PStr (lit ''1'')), (lit ''is_correct'', PBool False),
             (lit ''marks_awarded'', PInt 2), (lit ''marks_available'', PInt 2)])
     = Inr [lit ''\<newline>  Q1 [~] 2/2 marks'', lit ''  Student : '', lit ''  Correct : '',
            lit ''  Feedback: ''] \<and>
   result_lines
     \<lparr>repr_other = (\<lambda>v. []), json_dumps = (\<lambda>v. []), json_dump_text = (\<lambda>v. []),
      str_upper = (\<lambda>t. t)\<rparr>
     (PDict [(lit ''question_number'', PStr (lit ''2'')), (lit ''is_correct'', PBool True),
             (lit ''marks_awarded'', PInt 0), (lit ''marks_available'', PInt 2)])
     = Inr [lit ''\<newline>  Q2 ['' @ [10003] @ lit ''] 0/2 marks'', lit ''  Student : '',
            lit ''  Correct : '', lit ''  Feedback: '']"
  by (simp add: report_eval value_eval)

text \<open>
  C8 (amended).  For every entry of the results of a report that is produced, the
  glyph in the entry's heading line is determined by the entry's \<^verbatim>\<open>is_correct\<close> flag
  and its \<^verbatim>\<open>marks_awarded\<close>: the check mark when \<^verbatim>\<open>is_correct\<close> is true; otherwise
  the tilde when \<^verbatim>\<open>marks_awarded\<close> is above zero and the cross when it is not.
\<close>

theorem report_glyph_by_flag_and_marks:
  assumes "generate_report L extracted solutions grading output_path w = Inr (report, w')"
    and "py_get grading (lit ''results'') (PList []) = Inr (PList rs)"
    and "r \<in> set rs"
  shows "\<exists>lines qn ic ma mv glyph.
     report = py_join [10] lines \<and>
     py_getitem r (lit ''question_number'') = Inr qn \<and>
     py_get r (lit ''is_correct'') PNone = Inr ic \<and>
     py_get r (lit ''marks_awarded'') (PInt 0) = Inr ma \<and>
     py_get r (lit ''marks_available'') (PInt 0) = Inr mv \<and>
     lit ''\<newline>  Q'' @ py_str L qn @ lit '' ['' @ glyph @ lit ''] '' @ py_str L ma @
       lit ''/'' @ py_str L mv @ lit '' marks'' \<in> set lines \<and>
     (py_truthy ic \<longrightarrow> glyph = [10003]) \<and>
     (\<not> py_truthy ic \<longrightarrow>
        (\<exists>pos. py_gt_zero ma = Inr pos \<and> glyph = (if pos then [126] else [10007])))"
proof -
  from generate_report_Inr[OF assms(1)] obtain ls where
    ls: "report_lines L extracted grading = Inr ls" "report = py_join [10] ls" by blast
  from report_lines_entry[OF ls(1) assms(2,3)] obtain b where
    b: "result_lines L r = Inr b" "sublist b ls" by blast
  from b(1) obtain status qn ma mv sa ca fb where
    p: "status_glyph r = Inr status"
       "py_getitem r (lit ''question_number'') = Inr qn"
       "py_get r (lit ''marks_awarded'') (PInt 0) = Inr ma"
       "py_get r (lit ''marks_available'') (PInt 0) = Inr mv"
    and e: "b = [lit ''\<newline>  Q'' @ py_str L qn @ lit '' ['' @ status @ lit ''] '' @ py_str L ma @
            lit ''/'' @ py_str L mv @ lit '' marks'',
          lit ''  Student : '' @ take 100 (py_str L sa),
          lit ''  Correct : '' @ take 100 (py_str L ca),
          lit ''  Feedback: '' @ py_str L fb]"
    by (rule result_lines_parts)
  have hd: "hd b = lit ''\<newline>  Q'' @ py_str L qn @ lit '' ['' @ status @ lit ''] '' @ py_str L ma @
            lit ''/'' @ py_str L mv @ lit '' marks''" "b \<noteq> []"
    unfolding e by simp_all
  have "hd b \<in> set b" using hd(2) by simp
  then have m: "hd b \<in> set ls" using b(2) set_mono_sublist by blast
  from status_glyph_cases[OF p(1)] obtain ic where
    ic: "py_get r (lit ''is_correct'') PNone = Inr ic"
        "if py_truthy ic then status = [10003]
            else \<exists>ma pos. py_get r (lit ''marks_awarded'') (PInt 0) = Inr ma \<and>
                   py_gt_zero ma = Inr pos \<and> status = (if pos then [126] else [10007])"
    by blast
  have t: "py_truthy ic \<longrightarrow> status = [10003]" using ic(2) by simp
  have f: "\<not> py_truthy ic \<longrightarrow>
        (\<exists>pos. py_gt_zero ma = Inr pos \<and> status = (if pos then [126] else [10007]))"
  proof
    assume "\<not> py_truthy ic"
    then have "\<exists>ma pos. py_get r (lit ''marks_awarded'') (PInt 0) = Inr ma \<and>
                   py_gt_zero ma = Inr pos \<and> status = (if pos then [126] else [10007])"
      using ic(2) by (simp only: if_False)
    then obtain ma' pos where q: "py_get r (lit ''marks_awarded'') (PInt 0) = Inr ma'"
      "py_gt_zero ma' = Inr pos" "status = (if pos then [126] else [10007])" by blast
    have "ma' = ma" using q(1) p(3) by (simp only: sum.inject)
    then show "\<exists>pos. py_gt_zero ma = Inr pos \<and> status = (if pos then [126] else [10007])"
      using q(2,3) by blast
  qed
  have m': "lit ''\<newline>  Q'' @ py_str L qn @ lit '' ['' @ status @ lit ''] '' @ py_str L ma @
            lit ''/'' @ py_str L mv @ lit '' marks'' \<in> set ls"
    using m unfolding hd(1) .
  show ?thesis
    using ls(2) p(2,3,4) ic(1) m' t f by blast
qed

theorem report_glyph_by_flag_and_marks_witness:
  "\<exists>report w' lines.
     generate_report
       \<lparr>repr_other = (\<lambda>v. []), json_dumps = (\<lambda>v. []), json_dump_text = (\<lambda>v. []),
        str_upper = (\<lambda>t. t)\<rparr>
       (PDict []) (PDict [])
       (PDict [(lit ''results'',
                PList [PDict [(lit ''question_number'', PStr (lit ''3'')),
                              (lit ''is_correct'', PBool False),
                              (lit ''marks_awarded'', PInt 1),
                              (lit ''marks_available'', PInt 4)]])])
       (lit ''grading_report.txt'')
       \<lparr>files = Map.empty, stdout = [], environ = Map.empty\<rparr> = Inr (report, w') \<and>
     report = py_join [10] lines \<and>
     lit ''\<newline>  Q3 [~] 1/4 marks'' \<in> set lines"
proof -
  let ?L = "\<lparr>repr_other = (\<lambda>v. []), json_dumps = (\<lambda>v. []), json_dump_text = (\<lambda>v. []),
        str_upper = (\<lambda>t. t)\<rparr>"
  let ?r = "PDict [(lit ''question_number'', PStr (lit ''3'')), (lit ''is_correct'', PBool False),
                   (lit ''marks_awarded'', PInt 1), (lit ''marks_available'', PInt 4)]"
  let ?g = "PDict [(lit ''results'', PList [?r])]"
  let ?w = "\<lparr>files = Map.empty, stdout = [], environ = Map.empty\<rparr>"
  have "\<exists>report w'. generate_report ?L (PDict []) (PDict []) ?g (lit ''grading_report.txt'') ?w
          = Inr (report, w')"
    by (simp add: report_eval value_eval)
  then obtain report w' where
    gr: "generate_report ?L (PDict []) (PDict []) ?g (lit ''grading_report.txt'') ?w
          = Inr (report, w')" by blast
  have rs: "py_get ?g (lit ''results'') (PList []) = Inr (PList [?r])" by (simp add: py_get_def)
  have m: "?r \<in> set [?r]" by simp
  from report_glyph_by_flag_and_marks[OF gr rs m] obtain lines qn ic ma mv glyph where
    c: "report = py_join [10] lines"
       "py_getitem ?r (lit ''question_number'') = Inr qn"
       "py_get ?r (lit ''is_correct'') PNone = Inr ic"
       "py_get ?r (lit ''marks_awarded'') (PInt 0) = Inr ma"
       "py_get ?r (lit ''marks_available'') (PInt 0) = Inr mv"
       "lit ''\<newline>  Q'' @ py_str ?L qn @ lit '' ['' @ glyph @ lit ''] '' @ py_str ?L ma @
          lit ''/'' @ py_str ?L mv @ lit '' marks'' \<in> set lines"
       "\<not> py_truthy ic \<longrightarrow>
          (\<exists>pos. py_gt_zero ma = Inr pos \<and> glyph = (if pos then [126] else [10007]))"
    by blast
  have v: "qn = PStr (lit ''3'')" "ic = PBool False" "ma = PInt 1" "mv = PInt 4"
    using c(2,3,4,5) by (simp_all add: py_get_def py_getitem_def)
  then have "glyph = [126]" using c(7) by auto
  then have "lit ''\<newline>  Q3 [~] 1/4 marks'' \<in> set lines"
    using c(6) v by (simp add: str_int_def str_nat.simps)
  then show ?thesis using gr c(1) by blast
qed

text \<open>
  C10.  For every entry of the results of a report that is produced, the report has,
  one after the other, the line of the student's answer and the line of the correct
  answer, each with the first 100 characters of the value converted to a string and
  nothing beyond them, and the line of the feedback with its whole text.
\<close>

theorem report_answers_first_100:
  assumes "generate_report L extracted solutions grading output_path w = Inr (report, w')"
    and "py_get grading (lit ''results'') (PList []) = Inr (PList rs)"
    and "r \<in> set rs"
  shows "\<exists>lines sa ca fb.
     report = py_join [10] lines \<and>
     py_get r (lit ''student_answer'') (PStr []) = Inr sa \<and>
     py_get r (lit ''correct_answer'') (PStr []) = Inr ca \<and>
     py_get r (lit ''feedback'') (PStr []) = Inr fb \<and>
     sublist [lit ''  Student : '' @ take 100 (py_str L sa),
              lit ''  Correct : '' @ take 100 (py_str L ca),
              lit ''  Feedback: '' @ py_str L fb] lines"
proof -
  from generate_report_Inr[OF assms(1)] obtain ls where
    ls: "report_lines L extracted grading = Inr ls" "report = py_join [10] ls" by blast
  from report_lines_entry[OF ls(1) assms(2,3)] obtain b where
    b: "result_lines L r = Inr b" "sublist b ls" by blast
  from b(1) obtain status qn ma mv sa ca fb where
    p: "py_get r (lit ''student_answer'') (PStr []) = Inr sa"
       "py_get r (lit ''correct_answer'') (PStr []) = Inr ca"
       "py_get r (lit ''feedback'') (PStr []) = Inr fb"
    and e: "b = [lit ''\<newline>  Q'' @ py_str L qn @ lit '' ['' @ status @ lit ''] '' @ py_str L ma @
            lit ''/'' @ py_str L mv @ lit '' marks'',
          lit ''  Student : '' @ take 100 (py_str L sa),
          lit ''  Correct : '' @ take 100 (py_str L ca),
          lit ''  Feedback: '' @ py_str L fb]"
    by (rule result_lines_parts)
  have "sublist [lit ''  Student : '' @ take 100 (py_str L sa),
              lit ''  Correct : '' @ take 100 (py_str L ca),
              lit ''  Feedback: '' @ py_str L fb] b"
    unfolding e by (rule suffix_imp_sublist) (simp add: suffix_def)
  then have "sublist [lit ''  Student : '' @ take 100 (py_str L sa),
              lit ''  Correct : '' @ take 100 (py_str L ca),
              lit ''  Feedback: '' @ py_str L fb] ls"
    using b(2) sublist_order.order_trans by blast
  then show ?thesis using ls(2) p by blast
qed

theorem report_answers_first_100_witness:
  "\<exists>report w' lines.
     generate_report
       \<lparr>repr_other = (\<lambda>v. []), json_dumps = (\<lambda>v. []), json_dump_text = (\<lambda>v. []),
        str_upper = (\<lambda>t. t)\<rparr>
       (PDict []) (PDict [])
       (PDict [(lit ''results'',
                PList [PDict [(lit ''question_number'', PStr (lit ''1'')),
                              (lit ''student_answer'', PStr (replicate 120 97)),
                              (lit ''correct_answer'', PStr (lit ''B'')),
                              (lit ''feedback'', PStr (replicate 150 98))]])])
       (lit ''grading_report.txt'')
       \<lparr>files = Map.empty, stdout = [], environ = Map.empty\<rparr> = Inr (report, w') \<and>
     report = py_join [10] lines \<and>
     sublist [lit ''  Student : '' @ replicate 100 97, lit ''  Correct : B'',
              lit ''  Feedback: '' @ replicate 150 98] lines"
proof -
  let ?L = "\<lparr>repr_other = (\<lambda>v. []), json_dumps = (\<lambda>v. []), json_dump_text = (\<lambda>v. []),
        str_upper = (\<lambda>t. t)\<rparr>"
  let ?r = "PDict [(lit ''question_number'', PStr (lit ''1'')),
                   (lit ''student_answer'', PStr (replicate 120 97)),
                   (lit ''correct_answer'', PStr (lit ''B'')),
                   (lit ''feedback'', PStr (replicate 150 98))]"
  let ?g = "PDict [(lit ''results'', PList [?r])]"
  let ?w = "\<lparr>files = Map.empty, stdout = [], environ = Map.empty\<rparr>"
  have "\<exists>report w'. generate_report ?L (PDict []) (PDict []) ?g (lit ''grading_report.txt'') ?w
          = Inr (report, w')"
    by (simp add: report_eval value_eval)
  then obtain report w' where
    gr: "generate_report ?L (PDict []) (PDict []) ?g (lit ''grading_report.txt'') ?w
          = Inr (report, w')" by blast
  have rs: "py_get ?g (lit ''results'') (PList []) = Inr (PList [?r])" by (simp add: py_get_def)
  have m: "?r \<in> set [?r]" by simp
  from report_answers_first_100[OF gr rs m] obtain lines sa ca fb where
    c: "report = py_join [10] lines"
       "py_get ?r (lit ''student_answer'') (PStr []) = Inr sa"
       "py_get ?r (lit ''correct_answer'') (PStr []) = Inr ca"
       "py_get ?r (lit ''feedback'') (PStr []) = Inr fb"
       "sublist [lit ''  Student : '' @ take 100 (py_str ?L sa),
              lit ''  Correct : '' @ take 100 (py_str ?L ca),
              lit ''  Feedback: '' @ py_str ?L fb] lines"
    by blast
  have v: "sa = PStr (replicate 120 97)" "ca = PStr (lit ''B'')" "fb = PStr (replicate 150 98)"
    using c(2,3,4) by (simp_all add: py_get_def)
  have "sublist [lit ''  Student : '' @ replicate 100 97, lit ''  Correct : B'',
              lit ''  Feedback: '' @ replicate 150 98] lines"
    using c(5) unfolding v by simp
  then show ?thesis using gr c(1) by blast
qed

section \<open>The pipeline without a solution key\<close>

lemma print_simps [simp]:
  "files (print t w) = files w" "environ (print t w) = environ w"
  "stdout (print t w) = stdout w @ [t]"
  by (simp_all add: print_def)

lemma get_client_print: "get_client (print t w) = get_client w"
  by (simp add: get_client_def)

lemma write_text_Inr:
  "write_text p t w = Inr w' \<Longrightarrow> files w' = (files w)(p \<mapsto> t) \<and> stdout w' = stdout w"
  by (auto simp: write_text_def file_write_def split: if_splits)

lemma grade_answers_frame:
  assumes "grade_answers R L cl e s q w = Inr (g, w')"
  shows "files w' = files w \<and> prefix (stdout w) (stdout w')"
proof -
  from assms obtain t1 t2 where "w' = print t2 (print t1 (print (lit ''\<newline>[Step 3] Grading answers...'') w))"
    unfolding grade_answers_def Let_def py_bind_eq_Inr sum.inject prod.inject
    by (elim exE conjE) (erule sym[THEN that])
  then show ?thesis by (simp add: prefix_def)
qed

lemma generate_report_frame:
  assumes "generate_report L e s g p w = Inr (report, w')"
  shows "files w' = (files w)(p \<mapsto> report) \<and> prefix (stdout w) (stdout w')"
  using assms unfolding generate_report_def py_bind_eq_Inr
  by (auto simp: Let_def write_text_def file_write_def prefix_def split: if_splits)

lemma upload_pdf_files: "upload_pdf R cl p w = Inr (u, w') \<Longrightarrow> files w' = files w"
  by (auto simp: upload_pdf_def Let_def split: sum.splits)

lemma extract_all_pages_files: "extract_all_pages R cl f w = Inr (v, w') \<Longrightarrow> files w' = files w"
  by (auto simp: extract_all_pages_def Let_def split: sum.splits)

lemma notes_files:
  "(if c then py_bind m (\<lambda>nt. Inr (print (f nt) w)) else Inr w) = Inr w' \<Longrightarrow> files w' = files w"
  by (auto simp: py_bind_eq_Inr split: if_splits)

lemma extract_handwritten_text_files:
  assumes "extract_handwritten_text R L pdf otxt ojson w = Inr (res, w')"
    and "p \<noteq> otxt" and "p \<noteq> ojson"
  shows "files w' p = files w p"
  using assms(1)
  apply (simp only: extract_handwritten_text_def Let_def py_bind_eq_Inr split_paired_Ex prod.case
       sum.inject prod.inject)
  apply (elim exE conjE)
  apply (drule upload_pdf_files)
  apply (drule extract_all_pages_files)
  apply (drule notes_files)
  apply (drule write_text_Inr)
  using assms(2,3) apply auto
  done

text \<open>
  A missing \<^verbatim>\<open>solutions.txt\<close> does not keep the later stages from failing.  Here the
  file is absent and the grading model answers in prose: \<^verbatim>\<open>_parse_json\<close> raises, the
  error leaves \<^verbatim>\<open>run_pipeline\<close>, and neither output file is written.
\<close>

theorem run_pipeline_grader_failure:
  \<open>files \<lparr>files = Map.empty, stdout = [],
           environ = [lit ''GEMINI_API_KEY'' \<mapsto> lit ''key-123'']\<rparr> (lit ''solutions.txt'') = None \<and>
   run_pipeline
       \<lparr>files_upload = (\<lambda>c p. Inr (Uploaded (lit ''files/abc''))),
        files_delete = (\<lambda>c n. Inr ()),
        generate_content = (\<lambda>c m cs.
          case cs of
            [CText p] \<Rightarrow> Inr (lit ''I cannot grade without a solution key.'')
          | _ \<Rightarrow> Inr (lit ''{"answers": [{"question_number": "1", "answer_text": "B", "answer_type": "mcq"}], "pages_processed": 1}''))\<rparr>
       \<lparr>repr_other = (\<lambda>v. []), json_dumps = (\<lambda>v. lit ''[]''), json_dump_text = (\<lambda>v. lit ''{}''),
        str_upper = map (\<lambda>c. if 97 \<le> c \<and> c \<le> 122 then c - 32 else c)\<rparr>
       \<lparr>files = Map.empty, stdout = [],
        environ = [lit ''GEMINI_API_KEY'' \<mapsto> lit ''key-123'']\<rparr>
     = Inl (ValueError (lit ''Could not parse response as JSON:\<newline>I cannot grade without a solution key.''))\<close>
  by (simp add: run_pipeline_def extract_handwritten_text_def upload_pdf_def extract_all_pages_def
        parse_transcription_def get_client_def GEMINI_MODEL_def HANDWRITTEN_PDF_def
        grade_answers_def call_gemini_def parse_json_def path_exists_def
        str_eval json_eval value_eval write_text_def file_write_def encodable_def
        print_def Let_def)

text \<open>
  C6 (amended).  When \<^verbatim>\<open>solutions.txt\<close> does not exist, \<^verbatim>\<open>run_pipeline\<close> does not fail
  on that account: it prints the warning and substitutes the empty solution set
  \<^verbatim>\<open>{"solutions": [], "total_marks": 0}\<close>.  Provided the API key is configured, the
  transcription stage succeeds, the grading stage succeeds on the empty solution set,
  and the report and the consolidated document can be produced, it returns the
  consolidated document with that solution set and has written both
  \<^verbatim>\<open>final_output.json\<close> and \<^verbatim>\<open>grading_report.txt\<close>, with the warning on the console.
\<close>

theorem run_pipeline_without_solutions:
  fixes R L w
  defines "w1 \<equiv> print (lit ''\<newline>[Step 1] Extracting handwritten answers...'')
            (print (replicate 60 61)
              (print (lit ''   Powered by Google Gemini 2.5 Flash-Lite (1000 RPD free)'')
                (print (lit ''   PAPER CORRECTION AI  '' @ [8212] @ lit ''  Full Pipeline (FREE)'')
                  (print (replicate 60 61) w))))"
    and "empty_solutions \<equiv> PDict [(lit ''solutions'', PList []), (lit ''total_marks'', PInt 0)]"
    and "warning \<equiv> lit ''\<newline>[Step 2] solutions.txt not found '' @ [8212] @
                      lit '' run extractor.py first''"
  assumes "files w (lit ''solutions.txt'') = None"
    and "get_client w = Inr cl"
    and "extract_handwritten_text R L HANDWRITTEN_PDF (lit ''handwritten-ans.txt'')
           (lit ''handwritten-ans.json'') w1
         = Inr (extracted, w5)"
    and "grade_answers R L cl extracted empty_solutions
           (case files w5 (lit ''question.txt'') of None \<Rightarrow> [] | Some t \<Rightarrow> t)
           (print warning w5)
         = Inr (grading, w7)"
    and "encodable (json_dump_text L
           (PDict [(lit ''extraction'', extracted), (lit ''solutions'', empty_solutions),
                   (lit ''grading'', grading)]))"
    and "generate_report L extracted empty_solutions grading OUTPUT_REPORT
           (print (lit ''\<newline>      Full output saved '' @ [8594] @ lit '' '' @ OUTPUT_JSON)
              (w7\<lparr>files := (files w7)(OUTPUT_JSON \<mapsto> json_dump_text L
                 (PDict [(lit ''extraction'', extracted), (lit ''solutions'', empty_solutions),
                         (lit ''grading'', grading)]))\<rparr>))
         = Inr (report, w9)"
  shows "\<exists>w'. run_pipeline R L w =
            Inr (PDict [(lit ''extraction'', extracted), (lit ''solutions'', empty_solutions),
                        (lit ''grading'', grading)], w') \<and>
          warning \<in> set (stdout w') \<and>
          files w' OUTPUT_JSON = Some (json_dump_text L
            (PDict [(lit ''extraction'', extracted), (lit ''solutions'', empty_solutions),
                    (lit ''grading'', grading)])) \<and>
          files w' OUTPUT_REPORT = Some report"
proof -
  let ?final = "PDict [(lit ''extraction'', extracted), (lit ''solutions'', empty_solutions),
                       (lit ''grading'', grading)]"
  let ?w8 = "w7\<lparr>files := (files w7)(OUTPUT_JSON \<mapsto> json_dump_text L ?final)\<rparr>"
  let ?w' = "print report (print (lit ''\<newline>'' @ replicate 60 9472) w9)"
  have cl: "get_client (print (replicate 60 61)
              (print (lit ''   Powered by Google Gemini 2.5 Flash-Lite (1000 RPD free)'')
                (print (lit ''   PAPER CORRECTION AI  '' @ [8212] @ lit ''  Full Pipeline (FREE)'')
                  (print (replicate 60 61) w)))) = Inr cl"
    using assms(5) by (simp only: get_client_print)
  have "files w5 (lit ''solutions.txt'') = files w1 (lit ''solutions.txt'')"
    by (rule extract_handwritten_text_files[OF assms(6)]) simp_all
  then have "files w5 (lit ''solutions.txt'') = None"
    using assms(4) by (simp add: w1_def)
  then have ne: "path_exists w5 (lit ''solutions.txt'') = False"
    by (simp add: path_exists_def)
  have q: "(if path_exists (print warning w5) (lit ''question.txt'')
            then read_text (print warning w5) (lit ''question.txt'') else Inr [])
           = Inr (case files w5 (lit ''question.txt'') of None \<Rightarrow> [] | Some t \<Rightarrow> t)"
    by (auto simp: path_exists_def read_text_def split: option.splits)
  have wr: "write_text OUTPUT_JSON (json_dump_text L ?final) w7 = Inr ?w8"
    using assms(8) by (simp add: write_text_def file_write_def)
  note h = assms(6,7,9)[unfolded w1_def empty_solutions_def warning_def]
  have run: "run_pipeline R L w = Inr (?final, ?w')"
    unfolding run_pipeline_def Let_def empty_solutions_def warning_def
    by (simp only: cl h ne q[unfolded warning_def] wr[unfolded empty_solutions_def]
          py_bind_Inr prod.case if_False)
  have g: "prefix (stdout (print warning w5)) (stdout w7)"
    using grade_answers_frame[OF assms(7)] by simp
  have r: "files w9 = (files ?w8)(OUTPUT_REPORT \<mapsto> report)"
    "prefix (stdout w7 @ [lit ''\<newline>      Full output saved '' @ [8594] @ lit '' '' @ OUTPUT_JSON])
       (stdout w9)"
    using generate_report_frame[OF assms(9)] by simp_all
  have "warning \<in> set (stdout w7)" using g by (auto simp: prefix_def)
  then have "warning \<in> set (stdout w9)" using r(2) by (auto simp: prefix_def)
  then have a: "warning \<in> set (stdout ?w')" by simp
  have ne: "OUTPUT_JSON \<noteq> OUTPUT_REPORT" by (simp add: OUTPUT_JSON_def OUTPUT_REPORT_def)
  have b: "files ?w' OUTPUT_JSON = Some (json_dump_text L ?final)"
    using r(1) ne by simp
  have c: "files ?w' OUTPUT_REPORT = Some report" using r(1) by simp
  show ?thesis using run a b c by blast
qed

theorem run_pipeline_without_solutions_witness:
  \<open>\<exists>out w'.
     run_pipeline
       \<lparr>files_upload = (\<lambda>c p. Inr (Uploaded (lit ''files/abc''))),
        files_delete = (\<lambda>c n. Inl (ExternalError (lit ''gone''))),
        generate_content = (\<lambda>c m cs.
          case cs of
            [CText p] \<Rightarrow> Inr (lit ''```json\<newline>{"results": [], "total_marks_awarded": 0, "total_marks_available": 0, "percentage": 0, "grade": "N/A"}\<newline>```'')
          | _ \<Rightarrow> Inr (lit ''{"answers": [{"question_number": "1", "answer_text": "B", "answer_type": "mcq"}], "pages_processed": 1}''))\<rparr>
       \<lparr>repr_other = (\<lambda>v. []), json_dumps = (\<lambda>v. lit ''[]''), json_dump_text = (\<lambda>v. lit ''{}''),
        str_upper = map (\<lambda>c. if 97 \<le> c \<and> c \<le> 122 then c - 32 else c)\<rparr>
       \<lparr>files = Map.empty, stdout = [],
        environ = [lit ''GEMINI_API_KEY'' \<mapsto> lit ''key-123'']\<rparr> = Inr (out, w') \<and>
     py_get out (lit ''solutions'') PNone
       = Inr (PDict [(lit ''solutions'', PList []), (lit ''total_marks'', PInt 0)]) \<and>
     lit ''\<newline>[Step 2] solutions.txt not found '' @ [8212] @ lit '' run extractor.py first''
       \<in> set (stdout w') \<and>
     files w' OUTPUT_JSON \<noteq> None \<and> files w' OUTPUT_REPORT \<noteq> None\<close>
proof -
  let ?R = \<open>\<lparr>files_upload = (\<lambda>c p. Inr (Uploaded (lit ''files/abc''))),
        files_delete = (\<lambda>c n. Inl (ExternalError (lit ''gone''))),
        generate_content = (\<lambda>c m cs.
          case cs of
            [CText p] \<Rightarrow> Inr (lit ''```json\<newline>{"results": [], "total_marks_awarded": 0, "total_marks_available": 0, "percentage": 0, "grade": "N/A"}\<newline>```'')
          | _ \<Rightarrow> Inr (lit ''{"answers": [{"question_number": "1", "answer_text": "B", "answer_type": "mcq"}], "pages_processed": 1}''))\<rparr>\<close>
  let ?L = "\<lparr>repr_other = (\<lambda>v. []), json_dumps = (\<lambda>v. lit ''[]''),
        json_dump_text = (\<lambda>v. lit ''{}''),
        str_upper = map (\<lambda>c. if 97 \<le> c \<and> c \<le> 122 then c - 32 else c)\<rparr>"
  let ?w = "\<lparr>files = Map.empty, stdout = [],
        environ = [lit ''GEMINI_API_KEY'' \<mapsto> lit ''key-123'']\<rparr>"
  let ?w1 = "print (lit ''\<newline>[Step 1] Extracting handwritten answers...'')
            (print (replicate 60 61)
              (print (lit ''   Powered by Google Gemini 2.5 Flash-Lite (1000 RPD free)'')
                (print (lit ''   PAPER CORRECTION AI  '' @ [8212] @ lit ''  Full Pipeline (FREE)'')
                  (print (replicate 60 61) ?w))))"
  let ?empty = "PDict [(lit ''solutions'', PList []), (lit ''total_marks'', PInt 0)]"
  let ?warning = "lit ''\<newline>[Step 2] solutions.txt not found '' @ [8212] @
                      lit '' run extractor.py first''"
  have a: "files ?w (lit ''solutions.txt'') = None" by simp
  have b: "get_client ?w = Inr (Client (lit ''key-123''))" by (simp add: get_client_def)
  let ?E = "PDict [(lit ''answers'',
                    PList [PDict [(lit ''question_number'', PStr (lit ''1'')),
                                  (lit ''answer_text'', PStr (lit ''B'')),
                                  (lit ''answer_type'', PStr (lit ''mcq''))]]),
                   (lit ''pages_processed'', PInt 1),
                   (lit ''source_pdf'', PStr (lit ''handwritten-ans.pdf'')),
                   (lit ''api_calls_used'', PInt 1)]"
  let ?G = "PDict [(lit ''results'', PList []), (lit ''total_marks_awarded'', PInt 0),
                   (lit ''total_marks_available'', PInt 0), (lit ''percentage'', PInt 0),
                   (lit ''grade'', PStr (lit ''N/A''))]"
  let ?final = "PDict [(lit ''extraction'', ?E), (lit ''solutions'', ?empty),
                       (lit ''grading'', ?G)]"
  have "\<exists>w5. extract_handwritten_text ?R ?L HANDWRITTEN_PDF (lit ''handwritten-ans.txt'')
           (lit ''handwritten-ans.json'') ?w1 = Inr (?E, w5)"
    by (simp add: extract_handwritten_text_def upload_pdf_def extract_all_pages_def
          parse_transcription_def get_client_def GEMINI_MODEL_def HANDWRITTEN_PDF_def
          str_eval json_eval value_eval write_text_def file_write_def encodable_def
          print_def Let_def)
  then obtain w5 where c: "extract_handwritten_text ?R ?L HANDWRITTEN_PDF
           (lit ''handwritten-ans.txt'') (lit ''handwritten-ans.json'') ?w1 = Inr (?E, w5)"
    by blast
  have "files w5 (lit ''question.txt'') = files ?w1 (lit ''question.txt'')"
    by (rule extract_handwritten_text_files[OF c]) simp_all
  then have q: "files w5 (lit ''question.txt'') = None" by simp
  have "\<exists>w7. grade_answers ?R ?L (Client (lit ''key-123'')) ?E ?empty
           (case files w5 (lit ''question.txt'') of None \<Rightarrow> [] | Some t \<Rightarrow> t)
           (print ?warning w5) = Inr (?G, w7)"
    unfolding q
    by (simp add: grade_answers_def call_gemini_def parse_json_def GEMINI_MODEL_def
          str_eval json_eval value_eval)
  then obtain w7 where d: "grade_answers ?R ?L (Client (lit ''key-123'')) ?E ?empty
           (case files w5 (lit ''question.txt'') of None \<Rightarrow> [] | Some t \<Rightarrow> t)
           (print ?warning w5) = Inr (?G, w7)"
    by blast
  have e: "encodable (json_dump_text ?L ?final)" by (simp add: encodable_def)
  have "\<exists>report w9. generate_report ?L ?E ?empty ?G OUTPUT_REPORT
           (print (lit ''\<newline>      Full output saved '' @ [8594] @ lit '' '' @ OUTPUT_JSON)
              (w7\<lparr>files := (files w7)(OUTPUT_JSON \<mapsto> json_dump_text ?L ?final)\<rparr>))
         = Inr (report, w9)"
    by (simp add: report_eval value_eval)
  then obtain report w9 where f: "generate_report ?L ?E ?empty ?G OUTPUT_REPORT
           (print (lit ''\<newline>      Full output saved '' @ [8594] @ lit '' '' @ OUTPUT_JSON)
              (w7\<lparr>files := (files w7)(OUTPUT_JSON \<mapsto> json_dump_text ?L ?final)\<rparr>))
         = Inr (report, w9)"
    by blast
  from run_pipeline_without_solutions[OF a b c d e f] obtain w' where
    r: "run_pipeline ?R ?L ?w = Inr (?final, w')"
       "?warning \<in> set (stdout w')"
       "files w' OUTPUT_JSON = Some (json_dump_text ?L ?final)"
       "files w' OUTPUT_REPORT = Some report"
    by blast
  have g: "py_get ?final (lit ''solutions'') PNone = Inr ?empty" by (simp add: py_get_def)
  show ?thesis using r g by (intro exI[of _ ?final] exI[of _ w']) simp
qed

end
